theory Spec2Isabelle
  imports Complex_Main
begin

section \<open>The motion optimizer facade of xpp: variables and trajectories\<close>

text \<open>
  A shallow embedding of \<^verbatim>\<open>src/motion_optimizer_facade.cc\<close>: the construction of the
  optimization variables (\<^verbatim>\<open>BuildVariables\<close> with its two base representations), the
  solver dispatch (\<^verbatim>\<open>SolveProblem\<close>) and the sampling of a trajectory
  (\<^verbatim>\<open>BuildTrajectory\<close>, \<^verbatim>\<open>GetTrajectories\<close>).

  Conventions of the embedding.
  \<^item> A C++ \<^verbatim>\<open>double\<close> is an exact real number: sums and comparisons are the
    mathematical ones, rounding is not modelled.
  \<^item> Member names lose their trailing underscore (\<^verbatim>\<open>params_\<close> is \<open>params\<close>), which
    Isabelle does not accept in a name.
  \<^item> \<^verbatim>\<open>assert(false)\<close> aborts: it is the error \<open>AssertionFailed\<close> (the file is read with
    assertions enabled, as it is written). A failed \<^verbatim>\<open>.at()\<close> is \<open>OutOfRange\<close>, a failed
    lookup in a composite is \<open>LookupError\<close>.
  \<^item> The classes of the other translation units (splines, contact schedule, composite,
    identifiers, solvers) are not part of the file. Their data is recorded as the
    constructor and method arguments the facade passes; what they compute is a parameter
    (\<open>VariableNames\<close>, \<open>Evaluators\<close>, \<open>Solvers\<close>).
  \<^item> The members of the facade are a record that every operation takes; the constructor
    and \<^verbatim>\<open>BuildDefaultInitialState\<close> only fill it and are not modelled. Printing
    (\<^verbatim>\<open>Print\<close>, \<^verbatim>\<open>PrintCurrent\<close>) changes no state and is left out.
\<close>

subsection \<open>Vectors, states and errors\<close>

type_synonym double = real
type_synonym VectorXd = "double list"
type_synonym EndeffectorID = nat

definition E0 :: EndeffectorID where
  "E0 = 0"

datatype Coords3D = X | Y | Z

datatype MotionDerivative = kPos | kVel

definition kDim3d :: nat where
  "kDim3d = 3"

record StateLinXd =
  st_p :: VectorXd
  st_v :: VectorXd
  st_a :: VectorXd

record State3dEuler =
  lin :: StateLinXd
  ang :: StateLinXd

datatype error = AssertionFailed | OutOfRange | LookupError

definition ebind :: "error + 'a \<Rightarrow> ('a \<Rightarrow> error + 'b) \<Rightarrow> error + 'b" where
  "ebind m k = (case m of Inl e \<Rightarrow> Inl e | Inr x \<Rightarrow> k x)"

text \<open>\<^verbatim>\<open>std::vector::at\<close> and \<^verbatim>\<open>Endeffectors::At\<close>: a checked read.\<close>

definition at_index :: "'a list \<Rightarrow> nat \<Rightarrow> error + 'a" where
  "at_index xs i = (if i < length xs then Inr (xs ! i) else Inl OutOfRange)"

text \<open>Eigen's sum of two vectors and \<^verbatim>\<open>bottomRows<1>()\<close>.\<close>

definition vec_add :: "VectorXd \<Rightarrow> VectorXd \<Rightarrow> VectorXd" where
  "vec_add a b = map2 (+) a b"

definition bottomRows1 :: "VectorXd \<Rightarrow> VectorXd" where
  "bottomRows1 a = drop (length a - 1) a"

subsection \<open>Variable blocks\<close>

text \<open>
  Modelled from the spec: a contact schedule is built from a limb, that limb's phase
  sequence (duration and contact flag of each phase) and the two duration bounds; its
  identifier is the limb's schedule identifier; \<open>GetTimePerPhase\<close> gives the durations,
  \<open>GetContactSequence\<close> the flags; \<open>AddObserver\<close> registers a subscriber (kept by its
  identifier).
\<close>

record ContactSchedule =
  cs_name :: string
  cs_ee :: EndeffectorID
  cs_phases :: "(double \<times> bool) list"
  cs_min_duration :: double
  cs_max_duration :: double
  cs_observers :: "string list"

definition GetTimePerPhase :: "ContactSchedule \<Rightarrow> double list" where
  "GetTimePerPhase cs = map fst (cs_phases cs)"

definition GetContactSequence :: "ContactSchedule \<Rightarrow> bool list" where
  "GetContactSequence cs = map snd (cs_phases cs)"

definition AddObserver :: "string \<Rightarrow> ContactSchedule \<Rightarrow> ContactSchedule" where
  "AddObserver obs cs = cs\<lparr>cs_observers := cs_observers cs @ [obs]\<rparr>"

text \<open>
  Modelled from the spec: a boundary constraint names the first or the last node, position
  or velocity, the axes it fixes and the required vector. \<open>AddStartBound\<close> and
  \<open>AddFinalBound\<close> record one.
\<close>

datatype NodeSelector = FirstNode | LastNode

record BoundaryConstraint =
  node_selector :: NodeSelector
  value_kind :: MotionDerivative
  dimensions :: "Coords3D list"
  bound_vector :: VectorXd

text \<open>
  The node splines. \<^verbatim>\<open>EndeffectorNodes\<close> and \<^verbatim>\<open>ForceNodes\<close> are node values placed along a
  contact sequence; the record keeps the constructor's arguments (by class), the arguments
  of \<^verbatim>\<open>InitializeVariables\<close> and the bounds added, in call order. \<open>nv_assigned\<close> is the
  vector of node values a solver wrote into the block (\<open>None\<close> before any solve).
\<close>

datatype NodesClass =
    BaseNodes nat
  | EndeffectorNodes "bool list" int
  | ForceNodes "bool list" int double

record NodeValues =
  nv_name :: string
  nv_n_dim :: nat
  nv_class :: NodesClass
  nv_init :: "(VectorXd \<times> VectorXd \<times> double list) option"
  nv_bounds :: "BoundaryConstraint list"
  nv_assigned :: "VectorXd option"

definition new_NodeValues :: "nat \<Rightarrow> NodesClass \<Rightarrow> string \<Rightarrow> NodeValues" where
  "new_NodeValues n_dim cls name =
     \<lparr>nv_name = name, nv_n_dim = n_dim, nv_class = cls, nv_init = None, nv_bounds = [],
       nv_assigned = None\<rparr>"

definition InitializeVariables ::
  "VectorXd \<Rightarrow> VectorXd \<Rightarrow> double list \<Rightarrow> NodeValues \<Rightarrow> NodeValues" where
  "InitializeVariables initial final durations nv =
     nv\<lparr>nv_init := Some (initial, final, durations)\<rparr>"

definition AddStartBound ::
  "MotionDerivative \<Rightarrow> Coords3D list \<Rightarrow> VectorXd \<Rightarrow> NodeValues \<Rightarrow> NodeValues" where
  "AddStartBound d dims v nv =
     nv\<lparr>nv_bounds := nv_bounds nv @
        [\<lparr>node_selector = FirstNode, value_kind = d, dimensions = dims, bound_vector = v\<rparr>]\<rparr>"

definition AddFinalBound ::
  "MotionDerivative \<Rightarrow> Coords3D list \<Rightarrow> VectorXd \<Rightarrow> NodeValues \<Rightarrow> NodeValues" where
  "AddFinalBound d dims v nv =
     nv\<lparr>nv_bounds := nv_bounds nv @
        [\<lparr>node_selector = LastNode, value_kind = d, dimensions = dims, bound_vector = v\<rparr>]\<rparr>"

text \<open>
  The coefficient representation: one \<^verbatim>\<open>PolynomialVars\<close> block per segment and a
  \<^verbatim>\<open>CoeffSpline\<close> that refers to them (by identifier, in \<^verbatim>\<open>poly_vars_\<close>).
\<close>

record PolynomialVars =
  pv_name :: string
  pv_order :: int
  pv_n_dim :: nat
  pv_assigned :: "VectorXd option"

record CoeffSpline =
  co_name :: string
  co_timings :: "double list"
  poly_vars :: "string list"
  co_init :: "(VectorXd \<times> VectorXd) option"

datatype Component =
    ContactScheduleC ContactSchedule
  | NodeValuesC NodeValues
  | PolynomialVarsC PolynomialVars
  | CoeffSplineC CoeffSpline

fun GetName :: "Component \<Rightarrow> string" where
  "GetName (ContactScheduleC cs) = cs_name cs"
| "GetName (NodeValuesC nv) = nv_name nv"
| "GetName (PolynomialVarsC pv) = pv_name pv"
| "GetName (CoeffSplineC co) = co_name co"

text \<open>The blocks that can be sampled as a \<^verbatim>\<open>Spline\<close>.\<close>

fun is_Spline :: "Component \<Rightarrow> bool" where
  "is_Spline (ContactScheduleC cs) = False"
| "is_Spline (NodeValuesC nv) = True"
| "is_Spline (PolynomialVarsC pv) = False"
| "is_Spline (CoeffSplineC co) = True"

subsection \<open>The composite\<close>

text \<open>
  Modelled from the spec: a composite is a named, ordered collection of blocks, each with
  the flag \<open>is_variable\<close> it was added under (\<open>True\<close> when \<^verbatim>\<open>AddComponent\<close> is called with
  one argument). \<open>GetComponent\<close> returns the first block stored under the identifier and
  fails with a lookup error when there is none or when the block has not the requested
  capability.
\<close>

record Composite =
  comp_name :: string
  append_components :: bool
  components :: "(Component \<times> bool) list"

definition new_Composite :: "string \<Rightarrow> bool \<Rightarrow> Composite" where
  "new_Composite name app = \<lparr>comp_name = name, append_components = app, components = []\<rparr>"

definition ClearComponents :: "Composite \<Rightarrow> Composite" where
  "ClearComponents c = c\<lparr>components := []\<rparr>"

definition AddComponent :: "Component \<Rightarrow> bool \<Rightarrow> Composite \<Rightarrow> Composite" where
  "AddComponent b is_variable c = c\<lparr>components := components c @ [(b, is_variable)]\<rparr>"

definition GetComponent :: "Composite \<Rightarrow> string \<Rightarrow> error + Component" where
  "GetComponent c name =
     (case find (\<lambda>e. GetName (fst e) = name) (components c) of
        None \<Rightarrow> Inl LookupError
      | Some e \<Rightarrow> Inr (fst e))"

definition GetComponent_ContactSchedule :: "Composite \<Rightarrow> string \<Rightarrow> error + ContactSchedule" where
  "GetComponent_ContactSchedule c name =
     ebind (GetComponent c name)
       (\<lambda>b. case b of ContactScheduleC cs \<Rightarrow> Inr cs | _ \<Rightarrow> Inl LookupError)"

definition GetComponent_Spline :: "Composite \<Rightarrow> string \<Rightarrow> error + Component" where
  "GetComponent_Spline c name =
     ebind (GetComponent c name) (\<lambda>b. if is_Spline b then Inr b else Inl LookupError)"

subsection \<open>What the facade takes from other units\<close>

text \<open>The identifiers of \<^verbatim>\<open>variable_names.h\<close> (namespace \<^verbatim>\<open>id\<close>).\<close>

record VariableNames =
  base_linear :: string
  base_angular :: string
  GetEEScheduleId :: "EndeffectorID \<Rightarrow> string"
  GetEEXYMotionId :: "EndeffectorID \<Rightarrow> string"
  GetEEZMotionId :: "EndeffectorID \<Rightarrow> string"
  GetEEForceId :: "EndeffectorID \<Rightarrow> string"

text \<open>
  The sampling operations of the blocks and the angle conversion. The orientation state
  is of a type \<open>'ang\<close> the facade only passes on.
\<close>

record 'ang Evaluators =
  GetTotalTime :: "ContactSchedule \<Rightarrow> double"
  IsInContact :: "ContactSchedule \<Rightarrow> double \<Rightarrow> bool"
  GetPoint :: "Component \<Rightarrow> double \<Rightarrow> StateLinXd"
  AngularStateConverter_GetState :: "StateLinXd \<Rightarrow> 'ang"

text \<open>
  The robot model (\<^verbatim>\<open>model_\<close>). Modelled from the spec: the model supplies the limb count
  and the limb identifiers. The identifiers are \<open>E0, E1, ...\<close> in order, as BuildVariables
  relies on when it reads \<^verbatim>\<open>contact_schedule.at(ee)\<close> right after its \<^verbatim>\<open>push_back\<close>; the
  containers indexed by a limb (\<^verbatim>\<open>Endeffectors\<close>) list their limbs in the same order.
\<close>

record RobotModel =
  GetEECount :: nat
  GetNominalStanceInBase :: "VectorXd list"
  GetForceLimit :: double
  GetStandingZForce :: double

definition GetEEIDs :: "RobotModel \<Rightarrow> EndeffectorID list" where
  "GetEEIDs m = [0..<GetEECount m]"

definition GetEEsOrdered :: "nat \<Rightarrow> EndeffectorID list" where
  "GetEEsOrdered n = [0..<n]"

text \<open>
  The parameters (\<^verbatim>\<open>params_\<close>). An enum of C++ can hold a value that none of its
  enumerators names; such a value is \<open>UnknownRepresentation\<close>, \<open>UnknownSolver\<close>. Modelled
  from the spec: the parameters list the enabled constraint kinds, and
  \<open>ConstraintExists\<close> tells whether a kind is in the list.
\<close>

datatype BaseRepresentation = CubicHermite | PolyCoeff | UnknownRepresentation int


datatype ConstraintName = TotalTime | OtherConstraint nat

type_synonym CostName = nat

record OptimizationParameters =
  GetBaseRepresentation :: BaseRepresentation
  GetBasePolyDurations :: "double list"
  order_coeff_polys :: int
  contact_timings :: "(double \<times> bool) list list"
  min_phase_duration :: double
  max_phase_duration :: double
  force_splines_per_stance_phase :: int
  GetUsedConstraints :: "ConstraintName list"
  GetCostWeights :: "(CostName \<times> double) list"

definition ConstraintExists :: "OptimizationParameters \<Rightarrow> ConstraintName \<Rightarrow> bool" where
  "ConstraintExists p c = (c \<in> set (GetUsedConstraints p))"

text \<open>
  The nonlinear program (\<^verbatim>\<open>nlp\<close>). Modelled from the spec: the solver records the variables
  of each iterate; \<open>GetIterationCount\<close> is their number and \<open>GetOptVariables iter\<close> the
  variables of iterate \<open>iter\<close>. The constraints and costs the factory returns are kept as
  the requests that produced them.
\<close>

record NLP =
  nlp_variables :: "Composite option"
  nlp_constraints :: "ConstraintName list"
  nlp_costs :: "(CostName \<times> double) list"
  nlp_iterations :: "Composite list"


definition GetIterationCount :: "NLP \<Rightarrow> nat" where
  "GetIterationCount n = length (nlp_iterations n)"

definition GetOptVariables :: "NLP \<Rightarrow> nat \<Rightarrow> error + Composite" where
  "GetOptVariables n iter = at_index (nlp_iterations n) iter"


subsection \<open>The facade\<close>

record MotionOptimizerFacade =
  params :: OptimizationParameters
  model :: RobotModel
  inital_base :: State3dEuler
  final_base :: State3dEuler
  initial_ee_W :: "VectorXd list"
  nlp :: NLP

text \<open>\<^verbatim>\<open>StateLin3d::kNumDim\<close>.\<close>

definition kNumDim :: nat where
  "kNumDim = 3"

text \<open>\<^verbatim>\<open>std::to_string\<close> of a loop index: its decimal digits.\<close>

fun to_string :: "nat \<Rightarrow> string" where
  "to_string n =
     (if n < 10 then [''0123456789'' ! n]
      else to_string (n div 10) @ [''0123456789'' ! (n mod 10)])"

subsection \<open>SetBaseRepresentationHermite and SetBaseRepresentationCoeff\<close>

text \<open>The body of the loop over the two tuples (lines 176 to 210), up to the spline it adds.\<close>

definition SetBaseRepresentationHermite_spline ::
  "VariableNames \<Rightarrow> double list \<Rightarrow> string \<times> StateLinXd \<times> StateLinXd \<Rightarrow> NodeValues" where
  "SetBaseRepresentationHermite_spline ids base_spline_timings tuple =
     (let name = fst tuple;
          init = fst (snd tuple);
          final = snd (snd tuple);
          spline = new_NodeValues kNumDim (BaseNodes (length base_spline_timings)) name;
          spline = InitializeVariables (st_p init) (st_p final) base_spline_timings spline;
          dims = [X, Y, Z];
          spline = AddStartBound kPos dims (st_p init) spline;
          spline = AddStartBound kVel dims (st_v init) spline;
          spline = AddFinalBound kVel dims (st_v final) spline;
          spline = (if name = base_linear ids
                    then AddFinalBound kPos [X, Y] (st_p final) spline else spline);
          spline = (if name = base_angular ids
                    then AddFinalBound kPos [Z] (st_p final) spline else spline)
      in spline)"

definition SetBaseRepresentationHermite ::
  "VariableNames \<Rightarrow> MotionOptimizerFacade \<Rightarrow> Composite \<Rightarrow> Composite" where
  "SetBaseRepresentationHermite ids f opt_variables =
     (let base_spline_timings = GetBasePolyDurations (params f);
          linear = (base_linear ids, lin (inital_base f), lin (final_base f));
          angular = (base_angular ids, ang (inital_base f), ang (final_base f))
      in fold (\<lambda>tuple vars.
                 AddComponent
                   (NodeValuesC (SetBaseRepresentationHermite_spline ids base_spline_timings tuple))
                   True vars)
           [linear, angular] opt_variables)"

text \<open>
  One of the two halves of \<^verbatim>\<open>SetBaseRepresentationCoeff\<close> (lines 143 to 152 for the angular
  spline, 155 to 163 for the linear one): a polynomial block per segment, then the spline
  itself, added with \<open>is_variable = False\<close>.
\<close>

definition SetBaseRepresentationCoeff_spline ::
  "MotionOptimizerFacade \<Rightarrow> string \<Rightarrow> VectorXd \<Rightarrow> VectorXd \<Rightarrow> Composite \<Rightarrow> Composite" where
  "SetBaseRepresentationCoeff_spline f name initial final opt_variables =
     (let n_dim = kNumDim;
          order = order_coeff_polys (params f);
          base_spline_timings = GetBasePolyDurations (params f);
          coeff_spline = \<lparr>co_name = name, co_timings = base_spline_timings, poly_vars = [],
                            co_init = None\<rparr>;
          st = fold (\<lambda>i st.
                  let var = \<lparr>pv_name = name @ to_string i, pv_order = order, pv_n_dim = n_dim,
                                pv_assigned = None\<rparr>
                  in (AddComponent (PolynomialVarsC var) True (fst st),
                      (snd st)\<lparr>poly_vars := poly_vars (snd st) @ [pv_name var]\<rparr>))
                [0..<length base_spline_timings] (opt_variables, coeff_spline);
          coeff_spline = (snd st)\<lparr>co_init := Some (initial, final)\<rparr>
      in AddComponent (CoeffSplineC coeff_spline) False (fst st))"

definition SetBaseRepresentationCoeff ::
  "VariableNames \<Rightarrow> MotionOptimizerFacade \<Rightarrow> Composite \<Rightarrow> Composite" where
  "SetBaseRepresentationCoeff ids f opt_variables =
     SetBaseRepresentationCoeff_spline f (base_linear ids)
       (st_p (lin (inital_base f))) (st_p (lin (final_base f)))
       (SetBaseRepresentationCoeff_spline f (base_angular ids)
          (st_p (ang (inital_base f))) (st_p (ang (final_base f))) opt_variables)"

subsection \<open>BuildVariables\<close>

text \<open>A loop over the limbs whose body may fail.\<close>

primrec for_each :: "('a \<Rightarrow> 's \<Rightarrow> error + 's) \<Rightarrow> 'a list \<Rightarrow> 's \<Rightarrow> error + 's" where
  "for_each body [] s = Inr s"
| "for_each body (x # xs) s = ebind (body x s) (for_each body xs)"

definition new_ContactSchedule ::
  "VariableNames \<Rightarrow> EndeffectorID \<Rightarrow> (double \<times> bool) list \<Rightarrow> double \<Rightarrow> double \<Rightarrow> ContactSchedule" where
  "new_ContactSchedule ids ee timings min_duration max_duration =
     \<lparr>cs_name = GetEEScheduleId ids ee, cs_ee = ee, cs_phases = timings,
      cs_min_duration = min_duration, cs_max_duration = max_duration, cs_observers = []\<rparr>"

text \<open>
  The state of the three loops: the composite and the local vector \<^verbatim>\<open>contact_schedule\<close>.
  The vector and the composite share each schedule, so \<^verbatim>\<open>contact_schedule.at(ee)->AddObserver\<close>
  changes the schedule of limb \<open>ee\<close> in both.
\<close>

fun observe :: "EndeffectorID \<Rightarrow> string \<Rightarrow> Component \<Rightarrow> Component" where
  "observe ee obs (ContactScheduleC cs) =
     (if cs_ee cs = ee then ContactScheduleC (AddObserver obs cs) else ContactScheduleC cs)"
| "observe ee obs (NodeValuesC nv) = NodeValuesC nv"
| "observe ee obs (PolynomialVarsC pv) = PolynomialVarsC pv"
| "observe ee obs (CoeffSplineC co) = CoeffSplineC co"

fun AddObserver_at ::
  "EndeffectorID \<Rightarrow> string \<Rightarrow> Composite \<times> ContactSchedule list \<Rightarrow> Composite \<times> ContactSchedule list" where
  "AddObserver_at ee obs (opt_variables, contact_schedule) =
     (opt_variables\<lparr>components := map (\<lambda>e. (observe ee obs (fst e), snd e)) (components opt_variables)\<rparr>,
      contact_schedule[ee := AddObserver obs (contact_schedule ! ee)])"

text \<open>The body of the first loop (lines 80 to 87).\<close>

fun BuildVariables_schedule ::
  "VariableNames \<Rightarrow> MotionOptimizerFacade \<Rightarrow> EndeffectorID \<Rightarrow> Composite \<times> ContactSchedule list \<Rightarrow>
     error + Composite \<times> ContactSchedule list" where
  "BuildVariables_schedule ids f ee (opt_variables, contact_schedule) =
     ebind (at_index (contact_timings (params f)) ee) (\<lambda>timings.
       let contact_schedule = contact_schedule @
             [new_ContactSchedule ids ee timings
                (min_phase_duration (params f)) (max_phase_duration (params f))];
           optimize_timings = ConstraintExists (params f) TotalTime
       in ebind (at_index contact_schedule ee) (\<lambda>schedule.
            Inr (AddComponent (ContactScheduleC schedule) optimize_timings opt_variables,
                 contact_schedule)))"

text \<open>The body of the second loop (lines 91 to 113): the XY motion block, then the Z one.\<close>

fun BuildVariables_motion ::
  "VariableNames \<Rightarrow> MotionOptimizerFacade \<Rightarrow> EndeffectorID \<Rightarrow> Composite \<times> ContactSchedule list \<Rightarrow>
     error + Composite \<times> ContactSchedule list" where
  "BuildVariables_motion ids f ee (opt_variables, contact_schedule) =
     ebind (at_index contact_schedule ee) (\<lambda>schedule.
     ebind (at_index (GetNominalStanceInBase (model f)) ee) (\<lambda>nominal.
     ebind (at_index (initial_ee_W f) ee) (\<lambda>initial.
       let ee_motion_xy = new_NodeValues kDim3d
             (EndeffectorNodes (GetContactSequence schedule) 1) (GetEEXYMotionId ids ee);
           final_ee_pos_W = vec_add (st_p (lin (final_base f))) nominal;
           ee_motion_xy = InitializeVariables initial final_ee_pos_W
             (GetTimePerPhase schedule) ee_motion_xy;
           ee_motion_xy = AddStartBound kPos [X, Y] initial ee_motion_xy;
           st = AddObserver_at ee (nv_name ee_motion_xy)
             (AddComponent (NodeValuesC ee_motion_xy) True opt_variables, contact_schedule);
           ee_motion_z = new_NodeValues kDim3d
             (EndeffectorNodes (GetContactSequence schedule) 2) (GetEEZMotionId ids ee);
           ee_motion_z = InitializeVariables (bottomRows1 initial) (bottomRows1 final_ee_pos_W)
             (GetTimePerPhase schedule) ee_motion_z
       in Inr (AddObserver_at ee (nv_name ee_motion_z)
                 (AddComponent (NodeValuesC ee_motion_z) True (fst st), snd st)))))"

text \<open>The body of the third loop (lines 116 to 129).\<close>

fun BuildVariables_force ::
  "VariableNames \<Rightarrow> MotionOptimizerFacade \<Rightarrow> EndeffectorID \<Rightarrow> Composite \<times> ContactSchedule list \<Rightarrow>
     error + Composite \<times> ContactSchedule list" where
  "BuildVariables_force ids f ee (opt_variables, contact_schedule) =
     ebind (at_index contact_schedule ee) (\<lambda>schedule.
       let nodes_forces = new_NodeValues kDim3d
             (ForceNodes (GetContactSequence schedule)
                (force_splines_per_stance_phase (params f)) (GetForceLimit (model f)))
             (GetEEForceId ids ee);
           f_stance = [0, 0, GetStandingZForce (model f)];
           nodes_forces = InitializeVariables f_stance f_stance
             (GetTimePerPhase schedule) nodes_forces
       in Inr (AddObserver_at ee (nv_name nodes_forces)
                 (AddComponent (NodeValuesC nodes_forces) True opt_variables, contact_schedule)))"

definition BuildVariables :: "VariableNames \<Rightarrow> MotionOptimizerFacade \<Rightarrow> error + Composite" where
  "BuildVariables ids f =
     (let opt_variables = ClearComponents (new_Composite ''nlp_variables'' True) in
      ebind (case GetBaseRepresentation (params f) of
               CubicHermite \<Rightarrow> Inr (SetBaseRepresentationHermite ids f opt_variables)
             | PolyCoeff \<Rightarrow> Inr (SetBaseRepresentationCoeff ids f opt_variables)
             | UnknownRepresentation k \<Rightarrow> Inl AssertionFailed) (\<lambda>opt_variables.
      ebind (for_each (BuildVariables_schedule ids f) (GetEEIDs (model f)) (opt_variables, []))
        (\<lambda>st.
      ebind (for_each (BuildVariables_motion ids f) (GetEEIDs (model f)) st) (\<lambda>st.
      ebind (for_each (BuildVariables_force ids f) (GetEEIDs (model f)) st) (\<lambda>st.
        Inr (fst st))))))"

subsection \<open>BuildCostConstraints and SolveProblem\<close>



subsection \<open>The robot state and BuildTrajectory\<close>

record 'ang State3d =
  s_lin :: StateLinXd
  s_ang :: 'ang

record 'ang RobotStateCartesian =
  base :: "'ang State3d"
  ee_motion :: "StateLinXd list"
  ee_forces :: "VectorXd list"
  ee_contact :: "bool list"
  t_global :: double

text \<open>
  One pass of the limb loop of \<^verbatim>\<open>BuildTrajectory\<close> (lines 299 to 303): the contact flag from
  the limb's schedule, the motion from the block under the limb's XY motion identifier, the
  force from the limb's force block.
\<close>

definition BuildTrajectory_limb ::
  "VariableNames \<Rightarrow> 'ang Evaluators \<Rightarrow> Composite \<Rightarrow> double \<Rightarrow> EndeffectorID \<Rightarrow>
     error + (bool \<times> StateLinXd \<times> VectorXd)" where
  "BuildTrajectory_limb ids ev vars t ee =
     ebind (GetComponent_ContactSchedule vars (GetEEScheduleId ids ee)) (\<lambda>schedule.
     ebind (GetComponent_Spline vars (GetEEXYMotionId ids ee)) (\<lambda>motion.
     ebind (GetComponent_Spline vars (GetEEForceId ids ee)) (\<lambda>force.
       Inr (IsInContact ev schedule t, GetPoint ev motion t, st_p (GetPoint ev force t)))))"

primrec BuildTrajectory_limbs ::
  "VariableNames \<Rightarrow> 'ang Evaluators \<Rightarrow> Composite \<Rightarrow> double \<Rightarrow> EndeffectorID list \<Rightarrow>
     error + (bool \<times> StateLinXd \<times> VectorXd) list" where
  "BuildTrajectory_limbs ids ev vars t [] = Inr []"
| "BuildTrajectory_limbs ids ev vars t (ee # ees) =
     ebind (BuildTrajectory_limb ids ev vars t ee) (\<lambda>r.
     ebind (BuildTrajectory_limbs ids ev vars t ees) (\<lambda>rs. Inr (r # rs)))"

text \<open>
  The body of the sampling loop (lines 294 to 306): the state at time \<open>t\<close>. The state is
  created for \<^verbatim>\<open>model_->GetEECount()\<close> limbs and every limb's entry is written.
\<close>

definition BuildTrajectory_state ::
  "VariableNames \<Rightarrow> 'ang Evaluators \<Rightarrow> MotionOptimizerFacade \<Rightarrow> Composite \<Rightarrow> double \<Rightarrow>
     error + 'ang RobotStateCartesian" where
  "BuildTrajectory_state ids ev f vars t =
     ebind (GetComponent_Spline vars (base_linear ids)) (\<lambda>linear.
     ebind (GetComponent_Spline vars (base_angular ids)) (\<lambda>angular.
     ebind (BuildTrajectory_limbs ids ev vars t (GetEEsOrdered (GetEECount (model f)))) (\<lambda>limbs.
       Inr \<lparr>base = \<lparr>s_lin = GetPoint ev linear t,
                     s_ang = AngularStateConverter_GetState ev (GetPoint ev angular t)\<rparr>,
            ee_motion = map (\<lambda>r. fst (snd r)) limbs,
            ee_forces = map (\<lambda>r. snd (snd r)) limbs,
            ee_contact = map fst limbs,
            t_global = t\<rparr>)))"

text \<open>
  The loop \<^verbatim>\<open>while (t<=T+1e-5) { ...; trajectory.push_back(state); t += dt; }\<close>. It need not
  end (\<open>dt \<le> 0\<close>), so the result is an option: \<open>None\<close> is a loop that runs forever.
\<close>

partial_function (option) BuildTrajectory_loop ::
  "(double \<Rightarrow> error + 's) \<Rightarrow> double \<Rightarrow> double \<Rightarrow> double \<Rightarrow> 's list \<Rightarrow> (error + 's list) option" where
  "BuildTrajectory_loop state_at T dt t trajectory =
     (if t \<le> T + 1 / 100000
      then (case state_at t of
              Inl e \<Rightarrow> Some (Inl e)
            | Inr state \<Rightarrow> BuildTrajectory_loop state_at T dt (t + dt) (trajectory @ [state]))
      else Some (Inr trajectory))"

definition BuildTrajectory ::
  "VariableNames \<Rightarrow> 'ang Evaluators \<Rightarrow> MotionOptimizerFacade \<Rightarrow> Composite \<Rightarrow> double \<Rightarrow>
     (error + 'ang RobotStateCartesian list) option" where
  "BuildTrajectory ids ev f vars dt =
     (case GetComponent_ContactSchedule vars (GetEEScheduleId ids E0) of
        Inl e \<Rightarrow> Some (Inl e)
      | Inr schedule \<Rightarrow>
          BuildTrajectory_loop (BuildTrajectory_state ids ev f vars)
            (GetTotalTime ev schedule) dt 0 [])"

subsection \<open>GetTrajectories\<close>

text \<open>
  The loop over the recorded iterates (lines 277 to 280), with the trajectories pushed so
  far. A trajectory that is never returned leaves the whole call without a result.
\<close>

primrec GetTrajectories_loop ::
  "VariableNames \<Rightarrow> 'ang Evaluators \<Rightarrow> MotionOptimizerFacade \<Rightarrow> double \<Rightarrow> nat list \<Rightarrow>
     'ang RobotStateCartesian list list \<Rightarrow> (error + 'ang RobotStateCartesian list list) option" where
  "GetTrajectories_loop ids ev f dt [] trajectories = Some (Inr trajectories)"
| "GetTrajectories_loop ids ev f dt (iter # iters) trajectories =
     (case GetOptVariables (nlp f) iter of
        Inl e \<Rightarrow> Some (Inl e)
      | Inr opt_var \<Rightarrow>
          (case BuildTrajectory ids ev f opt_var dt of
             None \<Rightarrow> None
           | Some (Inl e) \<Rightarrow> Some (Inl e)
           | Some (Inr trajectory) \<Rightarrow>
               GetTrajectories_loop ids ev f dt iters (trajectories @ [trajectory])))"

definition GetTrajectories ::
  "VariableNames \<Rightarrow> 'ang Evaluators \<Rightarrow> MotionOptimizerFacade \<Rightarrow> double \<Rightarrow>
     (error + 'ang RobotStateCartesian list list) option" where
  "GetTrajectories ids ev f dt =
     GetTrajectories_loop ids ev f dt [0..<GetIterationCount (nlp f)] []"

subsection \<open>Notions used to state the properties\<close>

text \<open>
  The kind of a block, and the blocks of one kind in a composite with the identifier and
  the \<open>is_variable\<close> flag each was added under, in insertion order.
\<close>

datatype BlockKind =
  ScheduleBlock | BaseBlock | MotionBlock | ForceBlock | PolynomialBlock | CoeffSplineBlock

fun block_kind :: "Component \<Rightarrow> BlockKind" where
  "block_kind (ContactScheduleC cs) = ScheduleBlock"
| "block_kind (NodeValuesC nv) =
     (case nv_class nv of
        BaseNodes n \<Rightarrow> BaseBlock
      | EndeffectorNodes cs n \<Rightarrow> MotionBlock
      | ForceNodes cs n limit \<Rightarrow> ForceBlock)"
| "block_kind (PolynomialVarsC pv) = PolynomialBlock"
| "block_kind (CoeffSplineC co) = CoeffSplineBlock"

definition entry_summary :: "Component \<times> bool \<Rightarrow> BlockKind \<times> string \<times> bool" where
  "entry_summary e = (block_kind (fst e), GetName (fst e), snd e)"

text \<open>The kinds of the blocks of a base representation.\<close>

definition base_kind :: "BlockKind \<times> string \<times> bool \<Rightarrow> bool" where
  "base_kind s \<longleftrightarrow> fst s = BaseBlock \<or> fst s = PolynomialBlock \<or> fst s = CoeffSplineBlock"

definition blocks_of :: "BlockKind \<Rightarrow> Composite \<Rightarrow> (string \<times> bool) list" where
  "blocks_of k vars = map snd (filter (\<lambda>s. fst s = k) (map entry_summary (components vars)))"

text \<open>
  A facade whose variables can be built: a recognized base representation, and an entry for
  every limb in the contact timings, the nominal stance and the initial feet.
\<close>

definition well_configured :: "MotionOptimizerFacade \<Rightarrow> bool" where
  "well_configured f \<longleftrightarrow>
     (GetBaseRepresentation (params f) = CubicHermite \<or>
      GetBaseRepresentation (params f) = PolyCoeff) \<and>
     GetEECount (model f) \<le> length (contact_timings (params f)) \<and>
     GetEECount (model f) \<le> length (GetNominalStanceInBase (model f)) \<and>
     GetEECount (model f) \<le> length (initial_ee_W f)"

text \<open>A boundary constraint of a spline fixes an axis of the first or last node.\<close>

definition is_bounded :: "NodeValues \<Rightarrow> NodeSelector \<Rightarrow> MotionDerivative \<Rightarrow> Coords3D \<Rightarrow> bool" where
  "is_bounded nv sel d axis =
     list_ex (\<lambda>b. node_selector b = sel \<and> value_kind b = d \<and> axis \<in> set (dimensions b))
       (nv_bounds nv)"

text \<open>
  A composite that BuildTrajectory can read: every block it asks for is there, with the
  capability asked for.
\<close>

definition readable :: "VariableNames \<Rightarrow> MotionOptimizerFacade \<Rightarrow> Composite \<Rightarrow> bool" where
  "readable ids f vars \<longleftrightarrow>
     \<not> isl (GetComponent_ContactSchedule vars (GetEEScheduleId ids E0)) \<and>
     \<not> isl (GetComponent_Spline vars (base_linear ids)) \<and>
     \<not> isl (GetComponent_Spline vars (base_angular ids)) \<and>
     list_all (\<lambda>ee. \<not> isl (GetComponent_ContactSchedule vars (GetEEScheduleId ids ee)) \<and>
                     \<not> isl (GetComponent_Spline vars (GetEEXYMotionId ids ee)) \<and>
                     \<not> isl (GetComponent_Spline vars (GetEEForceId ids ee)))
       (GetEEsOrdered (GetEECount (model f)))"

text \<open>
  What BuildTrajectory stores for a time \<open>t\<close> when the composite is readable: every block is
  evaluated at \<open>t\<close> itself.
\<close>

definition sampled_limb ::
  "VariableNames \<Rightarrow> 'ang Evaluators \<Rightarrow> Composite \<Rightarrow> double \<Rightarrow> EndeffectorID \<Rightarrow>
     bool \<times> StateLinXd \<times> VectorXd" where
  "sampled_limb ids ev vars t ee =
     (IsInContact ev (projr (GetComponent_ContactSchedule vars (GetEEScheduleId ids ee))) t,
      GetPoint ev (projr (GetComponent_Spline vars (GetEEXYMotionId ids ee))) t,
      st_p (GetPoint ev (projr (GetComponent_Spline vars (GetEEForceId ids ee))) t))"

definition sampled_state ::
  "VariableNames \<Rightarrow> 'ang Evaluators \<Rightarrow> MotionOptimizerFacade \<Rightarrow> Composite \<Rightarrow> double \<Rightarrow>
     'ang RobotStateCartesian" where
  "sampled_state ids ev f vars t =
     \<lparr>base = \<lparr>s_lin = GetPoint ev (projr (GetComponent_Spline vars (base_linear ids))) t,
               s_ang = AngularStateConverter_GetState ev
                 (GetPoint ev (projr (GetComponent_Spline vars (base_angular ids))) t)\<rparr>,
      ee_motion = map (\<lambda>ee. fst (snd (sampled_limb ids ev vars t ee)))
                    (GetEEsOrdered (GetEECount (model f))),
      ee_forces = map (\<lambda>ee. snd (snd (sampled_limb ids ev vars t ee)))
                    (GetEEsOrdered (GetEECount (model f))),
      ee_contact = map (\<lambda>ee. fst (sampled_limb ids ev vars t ee))
                    (GetEEsOrdered (GetEECount (model f))),
      t_global = t\<rparr>"

text \<open>The identifiers BuildTrajectory looks up.\<close>

definition read_ids :: "VariableNames \<Rightarrow> MotionOptimizerFacade \<Rightarrow> string list" where
  "read_ids ids f =
     [GetEEScheduleId ids E0, base_linear ids, base_angular ids] @
     concat (map (\<lambda>ee. [GetEEScheduleId ids ee, GetEEXYMotionId ids ee, GetEEForceId ids ee])
               (GetEEsOrdered (GetEECount (model f))))"

definition z_motion_ids :: "VariableNames \<Rightarrow> MotionOptimizerFacade \<Rightarrow> string list" where
  "z_motion_ids ids f = map (GetEEZMotionId ids) (GetEEIDs (model f))"

text \<open>
  Two composites that differ at most in blocks stored under a Z motion identifier: entry
  by entry they are equal, or both entries are a block of the same Z motion identifier.
\<close>

definition differ_only_in_z ::
  "VariableNames \<Rightarrow> MotionOptimizerFacade \<Rightarrow> Composite \<Rightarrow> Composite \<Rightarrow> bool" where
  "differ_only_in_z ids f vars vars' \<longleftrightarrow>
     list_all2
       (\<lambda>e e'. e = e' \<or>
          (GetName (fst e) = GetName (fst e') \<and> GetName (fst e) \<in> set (z_motion_ids ids f)))
       (components vars) (components vars')"

text \<open>The time stamps and the number of states of a result of BuildTrajectory.\<close>

definition timestamps ::
  "(error + 'ang RobotStateCartesian list) option \<Rightarrow> (error + double list) option" where
  "timestamps r = map_option (map_sum id (map t_global)) r"

definition state_count ::
  "(error + 'ang RobotStateCartesian list) option \<Rightarrow> (error + nat) option" where
  "state_count r = map_option (map_sum id length) r"


definition n_samples :: "double \<Rightarrow> double \<Rightarrow> nat" where
  "n_samples T dt = (if T + 1 / 100000 < 0 then 0 else nat \<lfloor>(T + 1 / 100000) / dt\<rfloor> + 1)"

subsection \<open>A two-legged example\<close>

definition example_ids :: VariableNames where
  "example_ids =
     \<lparr>base_linear = ''base_lin_'', base_angular = ''base_ang_'',
      GetEEScheduleId = (\<lambda>ee. ''contact_schedule_'' @ to_string ee),
      GetEEXYMotionId = (\<lambda>ee. ''ee_motion_xy_'' @ to_string ee),
      GetEEZMotionId = (\<lambda>ee. ''ee_motion_z_'' @ to_string ee),
      GetEEForceId = (\<lambda>ee. ''ee_force_'' @ to_string ee)\<rparr>"

definition example_params :: OptimizationParameters where
  "example_params =
     \<lparr>GetBaseRepresentation = CubicHermite,
      GetBasePolyDurations = [1 / 2, 1 / 2],
      order_coeff_polys = 4,
      contact_timings = [[(2 / 5, True), (1 / 5, False), (2 / 5, True)],
                         [(3 / 10, True), (2 / 5, False), (3 / 10, True)]],
      min_phase_duration = 1 / 10,
      max_phase_duration = 1,
      force_splines_per_stance_phase = 3,
      GetUsedConstraints = [OtherConstraint 0, TotalTime],
      GetCostWeights = []\<rparr>"

definition example_model :: RobotModel where
  "example_model =
     \<lparr>GetEECount = 2,
      GetNominalStanceInBase = [[3 / 10, 1 / 5, - 1 / 2], [3 / 10, - 1 / 5, - 1 / 2]],
      GetForceLimit = 1000,
      GetStandingZForce = 200\<rparr>"

definition example_facade :: MotionOptimizerFacade where
  "example_facade =
     \<lparr>params = example_params,
      model = example_model,
      inital_base = \<lparr>lin = \<lparr>st_p = [0, 0, 1 / 2], st_v = [0, 0, 0], st_a = [0, 0, 0]\<rparr>,
                      ang = \<lparr>st_p = [0, 0, 0], st_v = [0, 0, 0], st_a = [0, 0, 0]\<rparr>\<rparr>,
      final_base = \<lparr>lin = \<lparr>st_p = [1, 0, 1 / 2], st_v = [0, 0, 0], st_a = [0, 0, 0]\<rparr>,
                     ang = \<lparr>st_p = [0, 0, 0], st_v = [0, 0, 0], st_a = [0, 0, 0]\<rparr>\<rparr>,
      initial_ee_W = [[3 / 10, 1 / 5, 0], [3 / 10, - 1 / 5, 0]],
      nlp = \<lparr>nlp_variables = None, nlp_constraints = [], nlp_costs = [], nlp_iterations = []\<rparr>\<rparr>"

text \<open>The variables BuildVariables builds for the example.\<close>

definition example_vars :: Composite where
  "example_vars =
     (case BuildVariables example_ids example_facade of
        Inr vars \<Rightarrow> vars
      | Inl e \<Rightarrow> new_Composite [] True)"

text \<open>
  Evaluators for the example. Modelled from the spec: the total time is the sum of the phase
  durations, and a time is in the phase whose interval contains it, a boundary belonging to
  the later phase. The example's splines interpolate linearly between the two vectors of
  \<^verbatim>\<open>InitializeVariables\<close>, and the angle conversion keeps the raw state.
\<close>

primrec contact_at :: "(double \<times> bool) list \<Rightarrow> double \<Rightarrow> bool" where
  "contact_at [] t = True"
| "contact_at (ph # phs) t =
     (if t < fst ph \<or> phs = [] then snd ph else contact_at phs (t - fst ph))"

fun example_GetPoint :: "Component \<Rightarrow> double \<Rightarrow> StateLinXd" where
  "example_GetPoint (NodeValuesC nv) t =
     (case nv_init nv of
        None \<Rightarrow> \<lparr>st_p = [], st_v = [], st_a = []\<rparr>
      | Some i \<Rightarrow>
          \<lparr>st_p = map2 (\<lambda>a b. a + t * (b - a)) (fst i) (fst (snd i)),
           st_v = map2 (\<lambda>a b. b - a) (fst i) (fst (snd i)),
           st_a = map (\<lambda>a. 0) (fst i)\<rparr>)"
| "example_GetPoint b t = \<lparr>st_p = [], st_v = [], st_a = []\<rparr>"

definition example_ev :: "StateLinXd Evaluators" where
  "example_ev =
     \<lparr>GetTotalTime = (\<lambda>cs. sum_list (map fst (cs_phases cs))),
      IsInContact = (\<lambda>cs t. contact_at (cs_phases cs) t),
      GetPoint = example_GetPoint,
      AngularStateConverter_GetState = (\<lambda>s. s)\<rparr>"

text \<open>The example's variables with other node values in the Z motion blocks.\<close>

definition example_vars_z :: Composite where
  "example_vars_z =
     example_vars\<lparr>components :=
       map (\<lambda>e. if GetName (fst e) \<in> set (z_motion_ids example_ids example_facade)
                 then (case fst e of
                         NodeValuesC nv \<Rightarrow>
                           (NodeValuesC (nv\<lparr>nv_init := Some ([5], [7], [1]),
                                             nv_assigned := Some [5, 6, 7]\<rparr>), snd e)
                       | b \<Rightarrow> e)
                 else e)
         (components example_vars)\<rparr>"

text \<open>The example after a solve that recorded two iterates.\<close>

definition example_solved :: MotionOptimizerFacade where
  "example_solved =
     example_facade\<lparr>nlp := (nlp example_facade)\<lparr>nlp_iterations := [example_vars, example_vars_z]\<rparr>\<rparr>"



text \<open>The example without the optimization of the phase timings.\<close>

definition example_fixed_timings :: MotionOptimizerFacade where
  "example_fixed_timings =
     example_facade\<lparr>params := example_params\<lparr>GetUsedConstraints := [OtherConstraint 0]\<rparr>\<rparr>"

section \<open>Properties\<close>

subsection \<open>The sampling loop\<close>

declare to_string.simps [simp del]

declare BuildTrajectory_loop.simps [code]


lemma BuildTrajectory_loop_unroll:
  assumes "\<And>i. i < k \<Longrightarrow> t + real i * dt \<le> T + 1 / 100000"
    and "\<not> t + real k * dt \<le> T + 1 / 100000"
    and "\<And>i. i < k \<Longrightarrow> state_at (t + real i * dt) = Inr (g (t + real i * dt))"
  shows "BuildTrajectory_loop state_at T dt t acc =
           Some (Inr (acc @ map (\<lambda>i. g (t + real i * dt)) [0..<k]))"
  using assms
proof (induction k arbitrary: t acc)
  case 0
  then show ?case by (simp add: BuildTrajectory_loop.simps)
next
  case (Suc k)
  have le: "t \<le> T + 1 / 100000" using Suc.prems(1)[of 0] by simp
  have st: "state_at t = Inr (g t)" using Suc.prems(3)[of 0] by simp
  have shift: "\<And>i. (t + dt) + real i * dt = t + real (Suc i) * dt"
    by (simp add: algebra_simps)
  have ih: "BuildTrajectory_loop state_at T dt (t + dt) (acc @ [g t]) =
          Some (Inr ((acc @ [g t]) @ map (\<lambda>i. g ((t + dt) + real i * dt)) [0..<k]))"
  proof (rule Suc.IH)
    fix i assume "i < k"
    then have "Suc i < Suc k" by simp
    from Suc.prems(1)[OF this] show "t + dt + real i * dt \<le> T + 1 / 100000"
      by (simp only: shift)
    from Suc.prems(3)[OF \<open>Suc i < Suc k\<close>] show "state_at (t + dt + real i * dt) = Inr (g (t + dt + real i * dt))"
      by (simp only: shift)
  next
    show "\<not> t + dt + real k * dt \<le> T + 1 / 100000"
      using Suc.prems(2) unfolding shift .
  qed
  have m: "map (\<lambda>i. g (t + real i * dt)) [0..<Suc k] = g t # map (\<lambda>i. g ((t + dt) + real i * dt)) [0..<k]"
    by (simp only: shift map_upt_Suc) simp
  show ?case
    by (subst BuildTrajectory_loop.simps) (simp only: le st ih m if_True sum.case append.simps append_assoc)
qed

lemma n_samples_iff:
  assumes "0 < dt"
  shows "k < n_samples T dt \<longleftrightarrow> real k * dt \<le> T + 1 / 100000"
proof (cases "T + 1 / 100000 < 0")
  case True
  have "0 \<le> real k * dt" using assms by simp
  with True show ?thesis by (simp add: n_samples_def)
next
  case False
  define L where "L = T + 1 / 100000"
  have L0: "0 \<le> L" using False by (simp add: L_def)
  have q0: "0 \<le> L / dt" using L0 assms by simp
  have "k < nat \<lfloor>L / dt\<rfloor> + 1 \<longleftrightarrow> int k \<le> \<lfloor>L / dt\<rfloor>"
    using q0 by linarith
  also have "\<dots> \<longleftrightarrow> real k \<le> L / dt"
    by (simp add: le_floor_iff)
  also have "\<dots> \<longleftrightarrow> real k * dt \<le> L"
    using assms by (simp add: pos_le_divide_eq)
  finally show ?thesis using False by (simp add: n_samples_def L_def)
qed


lemma BuildTrajectory_limb_readable:
  assumes "\<not> isl (GetComponent_ContactSchedule vars (GetEEScheduleId ids ee))"
    and "\<not> isl (GetComponent_Spline vars (GetEEXYMotionId ids ee))"
    and "\<not> isl (GetComponent_Spline vars (GetEEForceId ids ee))"
  shows "BuildTrajectory_limb ids ev vars t ee = Inr (sampled_limb ids ev vars t ee)"
  using assms
  by (auto simp: BuildTrajectory_limb_def sampled_limb_def ebind_def split: sum.splits)

lemma BuildTrajectory_limbs_readable:
  assumes "list_all (\<lambda>ee. \<not> isl (GetComponent_ContactSchedule vars (GetEEScheduleId ids ee)) \<and>
                     \<not> isl (GetComponent_Spline vars (GetEEXYMotionId ids ee)) \<and>
                     \<not> isl (GetComponent_Spline vars (GetEEForceId ids ee))) ees"
  shows "BuildTrajectory_limbs ids ev vars t ees = Inr (map (sampled_limb ids ev vars t) ees)"
  using assms
  by (induction ees) (simp_all add: BuildTrajectory_limb_readable ebind_def)

lemma BuildTrajectory_state_readable:
  assumes "readable ids f vars"
  shows "BuildTrajectory_state ids ev f vars t = Inr (sampled_state ids ev f vars t)"
proof -
  from assms have l: "\<not> isl (GetComponent_Spline vars (base_linear ids))"
    and a: "\<not> isl (GetComponent_Spline vars (base_angular ids))"
    and ees: "BuildTrajectory_limbs ids ev vars t (GetEEsOrdered (GetEECount (model f))) =
        Inr (map (sampled_limb ids ev vars t) (GetEEsOrdered (GetEECount (model f))))"
    by (simp_all add: readable_def BuildTrajectory_limbs_readable)
  from l obtain bl where bl: "GetComponent_Spline vars (base_linear ids) = Inr bl"
    by (cases "GetComponent_Spline vars (base_linear ids)") simp_all
  from a obtain ba where ba: "GetComponent_Spline vars (base_angular ids) = Inr ba"
    by (cases "GetComponent_Spline vars (base_angular ids)") simp_all
  show ?thesis
    by (simp add: BuildTrajectory_state_def sampled_state_def ebind_def bl ba ees o_def)
qed

lemma BuildTrajectory_readable:
  assumes "0 < dt" and "readable ids f vars"
    and "GetComponent_ContactSchedule vars (GetEEScheduleId ids E0) = Inr schedule"
  shows "BuildTrajectory ids ev f vars dt =
           Some (Inr (map (\<lambda>k. sampled_state ids ev f vars (real k * dt))
                        [0..<n_samples (GetTotalTime ev schedule) dt]))"
proof -
  let ?T = "GetTotalTime ev schedule"
  have "BuildTrajectory_loop (BuildTrajectory_state ids ev f vars) ?T dt 0 [] =
      Some (Inr ([] @ map (\<lambda>i. sampled_state ids ev f vars (0 + real i * dt)) [0..<n_samples ?T dt]))"
  proof (rule BuildTrajectory_loop_unroll)
    fix i assume "i < n_samples ?T dt"
    then show "0 + real i * dt \<le> ?T + 1 / 100000"
      using n_samples_iff[OF assms(1)] by simp
  next
    show "\<not> 0 + real (n_samples ?T dt) * dt \<le> ?T + 1 / 100000"
      using n_samples_iff[OF assms(1), of "n_samples ?T dt" ?T] by simp
  next
    fix i
    show "BuildTrajectory_state ids ev f vars (0 + real i * dt) =
        Inr (sampled_state ids ev f vars (0 + real i * dt))"
      by (rule BuildTrajectory_state_readable[OF assms(2)])
  qed
  then show ?thesis
    by (simp add: BuildTrajectory_def assms(3))
qed

lemma t_global_sampled_state: "t_global (sampled_state ids ev f vars t) = t"
  by (simp add: sampled_state_def)

lemma BuildTrajectory_limbs_motion:
  assumes "BuildTrajectory_limbs ids ev vars t ees = Inr rs"
  shows "length rs = length ees \<and>
         (\<forall>i<length ees. \<exists>b. GetComponent_Spline vars (GetEEXYMotionId ids (ees ! i)) = Inr b \<and>
             fst (snd (rs ! i)) = GetPoint ev b t)"
  using assms
proof (induction ees arbitrary: rs)
  case Nil
  then show ?case by simp
next
  case (Cons ee ees)
  from Cons.prems obtain r rs' where
    r: "BuildTrajectory_limb ids ev vars t ee = Inr r"
    and rs': "BuildTrajectory_limbs ids ev vars t ees = Inr rs'"
    and rs: "rs = r # rs'"
    by (auto simp: ebind_def split: sum.splits)
  from r obtain b where
    b: "GetComponent_Spline vars (GetEEXYMotionId ids ee) = Inr b"
    and rb: "fst (snd r) = GetPoint ev b t"
    by (auto simp: BuildTrajectory_limb_def ebind_def split: sum.splits)
  from Cons.IH[OF rs'] have len: "length rs' = length ees"
    and ih: "\<forall>i<length ees. \<exists>b. GetComponent_Spline vars (GetEEXYMotionId ids (ees ! i)) = Inr b \<and>
             fst (snd (rs' ! i)) = GetPoint ev b t"
    by simp_all
  have "\<exists>b. GetComponent_Spline vars (GetEEXYMotionId ids ((ee # ees) ! i)) = Inr b \<and>
             fst (snd (rs ! i)) = GetPoint ev b t" if "i < length (ee # ees)" for i
    using that b rb ih rs by (cases i) simp_all
  with len rs show ?case by simp
qed

lemma BuildTrajectory_state_motion:
  assumes "BuildTrajectory_state ids ev f vars t = Inr state" and "ee < GetEECount (model f)"
  shows "\<exists>b. GetComponent_Spline vars (GetEEXYMotionId ids ee) = Inr b \<and>
           ee_motion state ! ee = GetPoint ev b t"
proof -
  from assms(1) obtain limbs where
    l: "BuildTrajectory_limbs ids ev vars t (GetEEsOrdered (GetEECount (model f))) = Inr limbs"
    and m: "ee_motion state = map (\<lambda>r. fst (snd r)) limbs"
    by (auto simp: BuildTrajectory_state_def ebind_def split: sum.splits)
  from BuildTrajectory_limbs_motion[OF l] assms(2)
  have len: "length limbs = GetEECount (model f)"
    and "\<exists>b. GetComponent_Spline vars (GetEEXYMotionId ids ee) = Inr b \<and>
             fst (snd (limbs ! ee)) = GetPoint ev b t"
    by (simp_all add: GetEEsOrdered_def)
  with m assms(2) show ?thesis by simp
qed

lemma GetComponent_lookups_cong:
  assumes "GetComponent vars name = GetComponent vars' name"
  shows "GetComponent_ContactSchedule vars name = GetComponent_ContactSchedule vars' name"
    and "GetComponent_Spline vars name = GetComponent_Spline vars' name"
  using assms by (simp_all add: GetComponent_ContactSchedule_def GetComponent_Spline_def)

lemma BuildTrajectory_limbs_cong:
  assumes "\<And>ee. ee \<in> set ees \<Longrightarrow>
      GetComponent vars (GetEEScheduleId ids ee) = GetComponent vars' (GetEEScheduleId ids ee) \<and>
      GetComponent vars (GetEEXYMotionId ids ee) = GetComponent vars' (GetEEXYMotionId ids ee) \<and>
      GetComponent vars (GetEEForceId ids ee) = GetComponent vars' (GetEEForceId ids ee)"
  shows "BuildTrajectory_limbs ids ev vars t ees = BuildTrajectory_limbs ids ev vars' t ees"
  using assms
proof (induction ees)
  case Nil
  show ?case by simp
next
  case (Cons ee ees)
  have eqs: "GetComponent vars (GetEEScheduleId ids ee) = GetComponent vars' (GetEEScheduleId ids ee)"
    "GetComponent vars (GetEEXYMotionId ids ee) = GetComponent vars' (GetEEXYMotionId ids ee)"
    "GetComponent vars (GetEEForceId ids ee) = GetComponent vars' (GetEEForceId ids ee)"
    using Cons.prems[of ee] by simp_all
  have "BuildTrajectory_limb ids ev vars t ee = BuildTrajectory_limb ids ev vars' t ee"
    by (simp only: BuildTrajectory_limb_def GetComponent_lookups_cong(1)[OF eqs(1)]
        GetComponent_lookups_cong(2)[OF eqs(2)] GetComponent_lookups_cong(2)[OF eqs(3)])
  moreover have "BuildTrajectory_limbs ids ev vars t ees = BuildTrajectory_limbs ids ev vars' t ees"
    by (rule Cons.IH) (simp add: Cons.prems)
  ultimately show ?case by simp
qed

lemma BuildTrajectory_cong:
  assumes "\<And>name. name \<in> set (read_ids ids f) \<Longrightarrow> GetComponent vars name = GetComponent vars' name"
  shows "BuildTrajectory ids ev f vars dt = BuildTrajectory ids ev f vars' dt"
proof -
  have e0: "GetComponent_ContactSchedule vars (GetEEScheduleId ids E0) =
      GetComponent_ContactSchedule vars' (GetEEScheduleId ids E0)"
    by (rule GetComponent_lookups_cong) (simp add: assms read_ids_def)
  have l: "GetComponent_Spline vars (base_linear ids) = GetComponent_Spline vars' (base_linear ids)"
    by (rule GetComponent_lookups_cong) (simp add: assms read_ids_def)
  have a: "GetComponent_Spline vars (base_angular ids) = GetComponent_Spline vars' (base_angular ids)"
    by (rule GetComponent_lookups_cong) (simp add: assms read_ids_def)
  have ees: "BuildTrajectory_limbs ids ev vars t (GetEEsOrdered (GetEECount (model f))) =
      BuildTrajectory_limbs ids ev vars' t (GetEEsOrdered (GetEECount (model f)))" for t
  proof (rule BuildTrajectory_limbs_cong)
    fix ee assume "ee \<in> set (GetEEsOrdered (GetEECount (model f)))"
    then show "GetComponent vars (GetEEScheduleId ids ee) = GetComponent vars' (GetEEScheduleId ids ee) \<and>
      GetComponent vars (GetEEXYMotionId ids ee) = GetComponent vars' (GetEEXYMotionId ids ee) \<and>
      GetComponent vars (GetEEForceId ids ee) = GetComponent vars' (GetEEForceId ids ee)"
      by (intro conjI assms) (auto simp: read_ids_def)
  qed
  have st: "BuildTrajectory_state ids ev f vars = BuildTrajectory_state ids ev f vars'"
    by (rule ext) (simp add: BuildTrajectory_state_def l a ees)
  show ?thesis
    by (simp only: BuildTrajectory_def e0 st)
qed



subsection \<open>The example evaluated\<close>

lemmas example_defs =
  example_vars_def BuildVariables_def example_facade_def example_params_def example_model_def
  example_ids_def SetBaseRepresentationHermite_def SetBaseRepresentationHermite_spline_def
  GetEEIDs_def GetEEsOrdered_def ebind_def at_index_def new_Composite_def ClearComponents_def
  AddComponent_def new_NodeValues_def InitializeVariables_def AddStartBound_def AddFinalBound_def
  new_ContactSchedule_def ConstraintExists_def kDim3d_def kNumDim_def GetContactSequence_def
  GetTimePerPhase_def vec_add_def bottomRows1_def AddObserver_def numeral_2_eq_2 Let_def
  to_string.simps

lemma example_vars_components:
  "components example_vars =
    [(NodeValuesC
        \<lparr>nv_name = ''base_lin_'', nv_n_dim = 3, nv_class = BaseNodes 2,
           nv_init = Some ([0, 0, 1 / 2], [1, 0, 1 / 2], [1 / 2, 1 / 2]),
           nv_bounds =
             [\<lparr>node_selector = FirstNode, value_kind = kPos,
                 dimensions = [X, Y, Z], bound_vector = [0, 0, 1 / 2]\<rparr>,
              \<lparr>node_selector = FirstNode, value_kind = kVel,
                 dimensions = [X, Y, Z], bound_vector = [0, 0, 0]\<rparr>,
              \<lparr>node_selector = LastNode, value_kind = kVel,
                 dimensions = [X, Y, Z], bound_vector = [0, 0, 0]\<rparr>,
              \<lparr>node_selector = LastNode, value_kind = kPos, dimensions = [X, Y],
                 bound_vector = [1, 0, 1 / 2]\<rparr>],
           nv_assigned = None\<rparr>,
       True),
      (NodeValuesC
        \<lparr>nv_name = ''base_ang_'', nv_n_dim = 3, nv_class = BaseNodes 2,
           nv_init = Some ([0, 0, 0], [0, 0, 0], [1 / 2, 1 / 2]),
           nv_bounds =
             [\<lparr>node_selector = FirstNode, value_kind = kPos,
                 dimensions = [X, Y, Z], bound_vector = [0, 0, 0]\<rparr>,
              \<lparr>node_selector = FirstNode, value_kind = kVel,
                 dimensions = [X, Y, Z], bound_vector = [0, 0, 0]\<rparr>,
              \<lparr>node_selector = LastNode, value_kind = kVel,
                 dimensions = [X, Y, Z], bound_vector = [0, 0, 0]\<rparr>,
              \<lparr>node_selector = LastNode, value_kind = kPos, dimensions = [Z],
                 bound_vector = [0, 0, 0]\<rparr>],
           nv_assigned = None\<rparr>,
       True),
      (ContactScheduleC
        \<lparr>cs_name = ''contact_schedule_0'', cs_ee = 0,
           cs_phases = [(2 / 5, True), (1 / 5, False), (2 / 5, True)],
           cs_min_duration = 1 / 10, cs_max_duration = 1,
           cs_observers =
             [''ee_motion_xy_0'', ''ee_motion_z_0'', ''ee_force_0'']\<rparr>,
       True),
      (ContactScheduleC
        \<lparr>cs_name = ''contact_schedule_1'', cs_ee = 1,
           cs_phases = [(3 / 10, True), (2 / 5, False), (3 / 10, True)],
           cs_min_duration = 1 / 10, cs_max_duration = 1,
           cs_observers =
             [''ee_motion_xy_1'', ''ee_motion_z_1'', ''ee_force_1'']\<rparr>,
       True),
      (NodeValuesC
        \<lparr>nv_name = ''ee_motion_xy_0'', nv_n_dim = 3,
           nv_class = EndeffectorNodes [True, False, True] 1,
           nv_init =
             Some
              ([3 / 10, 1 / 5, 0], [13 / 10, 1 / 5, 0], [2 / 5, 1 / 5, 2 / 5]),
           nv_bounds =
             [\<lparr>node_selector = FirstNode, value_kind = kPos,
                 dimensions = [X, Y], bound_vector = [3 / 10, 1 / 5, 0]\<rparr>],
           nv_assigned = None\<rparr>,
       True),
      (NodeValuesC
        \<lparr>nv_name = ''ee_motion_z_0'', nv_n_dim = 3,
           nv_class = EndeffectorNodes [True, False, True] 2,
           nv_init = Some ([0], [0], [2 / 5, 1 / 5, 2 / 5]), nv_bounds = [],
           nv_assigned = None\<rparr>,
       True),
      (NodeValuesC
        \<lparr>nv_name = ''ee_motion_xy_1'', nv_n_dim = 3,
           nv_class = EndeffectorNodes [True, False, True] 1,
           nv_init =
             Some
              ([3 / 10, - (1 / 5), 0], [13 / 10, - (1 / 5), 0],
               [3 / 10, 2 / 5, 3 / 10]),
           nv_bounds =
             [\<lparr>node_selector = FirstNode, value_kind = kPos,
                 dimensions = [X, Y], bound_vector = [3 / 10, - (1 / 5), 0]\<rparr>],
           nv_assigned = None\<rparr>,
       True),
      (NodeValuesC
        \<lparr>nv_name = ''ee_motion_z_1'', nv_n_dim = 3,
           nv_class = EndeffectorNodes [True, False, True] 2,
           nv_init = Some ([0], [0], [3 / 10, 2 / 5, 3 / 10]), nv_bounds = [],
           nv_assigned = None\<rparr>,
       True),
      (NodeValuesC
        \<lparr>nv_name = ''ee_force_0'', nv_n_dim = 3,
           nv_class = ForceNodes [True, False, True] 3 1000,
           nv_init = Some ([0, 0, 200], [0, 0, 200], [2 / 5, 1 / 5, 2 / 5]),
           nv_bounds = [], nv_assigned = None\<rparr>,
       True),
      (NodeValuesC
        \<lparr>nv_name = ''ee_force_1'', nv_n_dim = 3,
           nv_class = ForceNodes [True, False, True] 3 1000,
           nv_init = Some ([0, 0, 200], [0, 0, 200], [3 / 10, 2 / 5, 3 / 10]),
           nv_bounds = [], nv_assigned = None\<rparr>,
       True)]"
  by (simp add: example_defs)

lemmas lookup_defs =
  GetComponent_ContactSchedule_def GetComponent_Spline_def GetComponent_def ebind_def
  example_ids_def example_facade_def example_model_def GetEEsOrdered_def E0_def
  numeral_2_eq_2 to_string.simps

lemma example_readable: "readable example_ids example_facade example_vars"
  by (simp add: readable_def example_vars_components lookup_defs)

lemma example_schedule:
  "GetComponent_ContactSchedule example_vars (GetEEScheduleId example_ids E0) =
     Inr \<lparr>cs_name = ''contact_schedule_0'', cs_ee = 0,
          cs_phases = [(2 / 5, True), (1 / 5, False), (2 / 5, True)],
          cs_min_duration = 1 / 10, cs_max_duration = 1,
          cs_observers = [''ee_motion_xy_0'', ''ee_motion_z_0'', ''ee_force_0'']\<rparr>"
  by (simp add: example_vars_components lookup_defs)

lemma example_total_time:
  "GetTotalTime example_ev
     \<lparr>cs_name = ''contact_schedule_0'', cs_ee = 0,
      cs_phases = [(2 / 5, True), (1 / 5, False), (2 / 5, True)],
      cs_min_duration = 1 / 10, cs_max_duration = 1,
      cs_observers = [''ee_motion_xy_0'', ''ee_motion_z_0'', ''ee_force_0'']\<rparr> = 1"
  by (simp add: example_ev_def)



subsection \<open>Sample times of BuildTrajectory\<close>



subsection \<open>The step 0.33\<close>

lemma n_samples_1_third: "n_samples 1 (33 / 100) = 4"
  by (simp add: n_samples_def)

lemma upt_4: "[0..<4] = [0, 1, 2, 3]"
  by (simp add: upt_rec)

lemma example_schedule_projr:
  "GetTotalTime example_ev
     (projr (GetComponent_ContactSchedule example_vars (GetEEScheduleId example_ids E0))) = 1"
  by (simp add: example_schedule example_total_time)

text \<open>
  Claim C2 (amended). For a total time \<open>T = 1\<close> and a step \<open>dt = 0.33\<close> BuildTrajectory returns
  exactly \<open>\<lfloor>(1 + 1e-5) / 0.33\<rfloor> + 1 = 4\<close> states, at the times \<open>0, 0.33, 0.66, 0.99\<close>: the next
  sample, \<open>1.32\<close>, is beyond \<open>T + 1e-5\<close>.
\<close>

theorem BuildTrajectory_step_033:
  assumes "readable ids f vars"
    and "GetComponent_ContactSchedule vars (GetEEScheduleId ids E0) = Inr schedule"
    and "GetTotalTime ev schedule = 1"
  shows "\<exists>trajectory.
           BuildTrajectory ids ev f vars (33 / 100) = Some (Inr trajectory) \<and>
           length trajectory = 4 \<and>
           length trajectory = nat \<lfloor>(1 + 1 / 100000) / (33 / 100 :: real)\<rfloor> + 1 \<and>
           map t_global trajectory = [0, 33 / 100, 66 / 100, 99 / 100]"
proof -
  let ?tr = "map (\<lambda>k. sampled_state ids ev f vars (real k * (33 / 100))) [0..<4]"
  have dt: "(0::real) < 33 / 100" by simp
  have run: "BuildTrajectory ids ev f vars (33 / 100) = Some (Inr ?tr)"
    using BuildTrajectory_readable[OF dt assms(1,2), of ev]
    by (simp only: assms(3) n_samples_1_third)
  have len: "length ?tr = 4" by simp
  have fl: "length ?tr = nat \<lfloor>(1 + 1 / 100000) / (33 / 100 :: real)\<rfloor> + 1" by simp
  have ts: "map t_global ?tr = [0, 33 / 100, 66 / 100, 99 / 100]"
    by (simp only: upt_4 list.map t_global_sampled_state) simp
  from run len fl ts show ?thesis by (intro exI[where x = "?tr"] conjI)
qed

theorem BuildTrajectory_step_033_witness:
  "readable example_ids example_facade example_vars \<and>
   GetTotalTime example_ev
     (projr (GetComponent_ContactSchedule example_vars (GetEEScheduleId example_ids E0))) = 1 \<and>
   timestamps (BuildTrajectory example_ids example_ev example_facade example_vars (33 / 100)) =
     Some (Inr [0, 33 / 100, 66 / 100, 99 / 100])"
proof -
  from BuildTrajectory_step_033[OF example_readable example_schedule example_total_time]
  obtain trajectory where
    "BuildTrajectory example_ids example_ev example_facade example_vars (33 / 100) =
        Some (Inr trajectory)"
    and "map t_global trajectory = [0, 33 / 100, 66 / 100, 99 / 100]"
    by auto
  then have "timestamps (BuildTrajectory example_ids example_ev example_facade example_vars (33 / 100)) =
     Some (Inr [0, 33 / 100, 66 / 100, 99 / 100])"
    by (simp add: timestamps_def)
  with example_readable example_schedule_projr show ?thesis by (intro conjI)
qed

theorem BuildTrajectory_step_033_counterexample:
  "GetTotalTime example_ev
     (projr (GetComponent_ContactSchedule example_vars (GetEEScheduleId example_ids E0))) = 1 \<and>
   state_count (BuildTrajectory example_ids example_ev example_facade example_vars (33 / 100)) =
     Some (Inr 4) \<and>
   state_count (BuildTrajectory example_ids example_ev example_facade example_vars (33 / 100)) \<noteq>
     Some (Inr (nat \<lceil>1 / (33 / 100 :: real)\<rceil> + 1))"
proof -
  have dt: "(0::real) < 33 / 100" by simp
  have "state_count (BuildTrajectory example_ids example_ev example_facade example_vars (33 / 100)) =
     Some (Inr 4)"
    using BuildTrajectory_readable[OF dt example_readable example_schedule, of example_ev]
    by (simp add: example_total_time n_samples_1_third state_count_def)
  moreover have "nat \<lceil>1 / (33 / 100 :: real)\<rceil> + 1 = 5" by simp
  ultimately show ?thesis
    using example_schedule_projr by simp
qed

subsection \<open>A sample beyond the total time\<close>


lemma upt_2: "[0..<2] = [0, 1]"
  by (simp add: upt_rec)





subsection \<open>The Z motion blocks are not read\<close>

lemma find_differ_only_in_z:
  assumes "list_all2 (\<lambda>e e'. e = e' \<or> (GetName (fst e) = GetName (fst e') \<and> GetName (fst e) \<in> zs)) xs ys"
    and "name \<notin> zs"
  shows "map_option fst (find (\<lambda>e. GetName (fst e) = name) xs) =
         map_option fst (find (\<lambda>e. GetName (fst e) = name) ys)"
  using assms(1)
proof (induction rule: list_all2_induct)
  case Nil
  show ?case by simp
next
  case (Cons x xs y ys)
  from Cons(1) show ?case
  proof
    assume "x = y"
    with Cons.IH show ?thesis by simp
  next
    assume z: "GetName (fst x) = GetName (fst y) \<and> GetName (fst x) \<in> zs"
    with assms(2) have "GetName (fst x) \<noteq> name" "GetName (fst y) \<noteq> name" by auto
    with Cons.IH show ?thesis by simp
  qed
qed

lemma GetComponent_find:
  "GetComponent c name =
     (case map_option fst (find (\<lambda>e. GetName (fst e) = name) (components c)) of
        None \<Rightarrow> Inl LookupError | Some b \<Rightarrow> Inr b)"
  by (simp add: GetComponent_def split: option.splits)

lemma GetComponent_differ_only_in_z:
  assumes "differ_only_in_z ids f vars vars'" and "name \<notin> set (z_motion_ids ids f)"
  shows "GetComponent vars name = GetComponent vars' name"
proof -
  have "list_all2 (\<lambda>e e'. e = e' \<or> (GetName (fst e) = GetName (fst e') \<and>
            GetName (fst e) \<in> set (z_motion_ids ids f))) (components vars) (components vars')"
    using assms(1) by (simp add: differ_only_in_z_def)
  from find_differ_only_in_z[OF this assms(2)] show ?thesis
    by (simp only: GetComponent_find)
qed

lemma n_samples_1_half: "n_samples 1 (1 / 2) = 3"
  by (simp add: n_samples_def)

lemma upt_3: "[0..<3] = [0, 1, 2]"
  by (simp add: upt_rec)

lemma example_run_half:
  "BuildTrajectory example_ids example_ev example_facade example_vars (1 / 2) =
     Some (Inr (map (\<lambda>k. sampled_state example_ids example_ev example_facade example_vars
                             (real k * (1 / 2))) [0, 1, 2]))"
proof -
  have dt: "(0::real) < 1 / 2" by simp
  show ?thesis
    using BuildTrajectory_readable[OF dt example_readable example_schedule, of example_ev]
    by (simp only: example_total_time n_samples_1_half upt_3)
qed

lemma example_z_ids:
  "z_motion_ids example_ids example_facade = [''ee_motion_z_0'', ''ee_motion_z_1'']"
  by (simp add: z_motion_ids_def example_ids_def example_facade_def example_model_def GetEEIDs_def
      numeral_2_eq_2 to_string.simps)

lemma example_read_ids:
  "read_ids example_ids example_facade =
     [''contact_schedule_0'', ''base_lin_'', ''base_ang_'',
      ''contact_schedule_0'', ''ee_motion_xy_0'', ''ee_force_0'',
      ''contact_schedule_1'', ''ee_motion_xy_1'', ''ee_force_1'']"
  by (simp add: read_ids_def example_ids_def example_facade_def example_model_def GetEEsOrdered_def
      E0_def numeral_2_eq_2 to_string.simps)

lemma example_ids_apart:
  "set (z_motion_ids example_ids example_facade) \<inter> set (read_ids example_ids example_facade) = {}"
  by (simp add: example_z_ids example_read_ids)

lemma example_differ_only_in_z:
  "differ_only_in_z example_ids example_facade example_vars example_vars_z"
  by (simp add: differ_only_in_z_def example_vars_z_def example_z_ids example_vars_components
     )

lemma example_vars_z_differs: "example_vars \<noteq> example_vars_z"
proof
  assume "example_vars = example_vars_z"
  then have "components example_vars = components example_vars_z" by simp
  then show False
    by (simp add: example_vars_z_def example_z_ids example_vars_components)
qed

text \<open>
  Claim C10. BuildTrajectory never reads a Z motion block: when no Z motion identifier is one
  of the identifiers BuildTrajectory looks up, two composites that differ only in the blocks
  stored under Z motion identifiers give the same result for every step. The position of a
  limb in a state is the value of the block found under the limb's XY motion identifier.
\<close>

theorem BuildTrajectory_ignores_z_motion:
  assumes "set (z_motion_ids ids f) \<inter> set (read_ids ids f) = {}"
    and "differ_only_in_z ids f vars vars'"
  shows "BuildTrajectory ids ev f vars dt = BuildTrajectory ids ev f vars' dt \<and>
         (\<forall>t state ee.
            BuildTrajectory_state ids ev f vars t = Inr state \<longrightarrow>
            ee < GetEECount (model f) \<longrightarrow>
            (\<exists>b. GetComponent_Spline vars (GetEEXYMotionId ids ee) = Inr b \<and>
                 ee_motion state ! ee = GetPoint ev b t))"
proof
  show "BuildTrajectory ids ev f vars dt = BuildTrajectory ids ev f vars' dt"
  proof (rule BuildTrajectory_cong)
    fix name assume "name \<in> set (read_ids ids f)"
    with assms(1) have "name \<notin> set (z_motion_ids ids f)" by auto
    with assms(2) show "GetComponent vars name = GetComponent vars' name"
      by (rule GetComponent_differ_only_in_z)
  qed
  show "\<forall>t state ee.
            BuildTrajectory_state ids ev f vars t = Inr state \<longrightarrow>
            ee < GetEECount (model f) \<longrightarrow>
            (\<exists>b. GetComponent_Spline vars (GetEEXYMotionId ids ee) = Inr b \<and>
                 ee_motion state ! ee = GetPoint ev b t)"
    using BuildTrajectory_state_motion by blast
qed

theorem BuildTrajectory_ignores_z_motion_witness:
  "set (z_motion_ids example_ids example_facade) \<inter> set (read_ids example_ids example_facade) = {} \<and>
   differ_only_in_z example_ids example_facade example_vars example_vars_z \<and>
   example_vars \<noteq> example_vars_z \<and>
   BuildTrajectory example_ids example_ev example_facade example_vars (1 / 2) =
     BuildTrajectory example_ids example_ev example_facade example_vars_z (1 / 2) \<and>
   state_count (BuildTrajectory example_ids example_ev example_facade example_vars_z (1 / 2)) =
     Some (Inr 3)"
proof -
  have eq: "BuildTrajectory example_ids example_ev example_facade example_vars (1 / 2) =
     BuildTrajectory example_ids example_ev example_facade example_vars_z (1 / 2)"
    by (rule conjunct1[OF BuildTrajectory_ignores_z_motion[OF example_ids_apart
            example_differ_only_in_z]])
  have "state_count (BuildTrajectory example_ids example_ev example_facade example_vars (1 / 2)) =
     Some (Inr 3)"
    by (simp add: example_run_half state_count_def)
  then have cnt: "state_count (BuildTrajectory example_ids example_ev example_facade example_vars_z (1 / 2)) =
     Some (Inr 3)"
    by (simp only: eq)
  from example_ids_apart example_differ_only_in_z example_vars_z_differs eq cnt
  show ?thesis by (intro conjI)
qed

subsection \<open>Determinism and order of the samples\<close>



subsection \<open>GetTrajectories\<close>

lemma BuildTrajectory_returns:
  assumes "0 < dt" and "readable ids f vars"
  shows "\<exists>trajectory. BuildTrajectory ids ev f vars dt = Some (Inr trajectory)"
proof -
  from assms(2) obtain schedule where
    "GetComponent_ContactSchedule vars (GetEEScheduleId ids E0) = Inr schedule"
    by (cases "GetComponent_ContactSchedule vars (GetEEScheduleId ids E0)")
       (simp_all add: readable_def)
  from BuildTrajectory_readable[OF assms this] show ?thesis by blast
qed

lemma GetTrajectories_loop_returns:
  assumes "0 < dt"
    and "\<And>iter. iter \<in> set iters \<Longrightarrow>
           iter < length (nlp_iterations (nlp f)) \<and> readable ids f (nlp_iterations (nlp f) ! iter)"
  shows "\<exists>trs. GetTrajectories_loop ids ev f dt iters acc = Some (Inr (acc @ trs)) \<and>
           length trs = length iters \<and>
           (\<forall>i<length iters.
              BuildTrajectory ids ev f (nlp_iterations (nlp f) ! (iters ! i)) dt = Some (Inr (trs ! i)))"
  using assms(2)
proof (induction iters arbitrary: acc)
  case Nil
  show ?case by simp
next
  case (Cons iter iters)
  from Cons.prems[of iter] have rng: "iter < length (nlp_iterations (nlp f))"
    and rd: "readable ids f (nlp_iterations (nlp f) ! iter)" by simp_all
  from BuildTrajectory_returns[OF assms(1) rd] obtain tr where
    tr: "BuildTrajectory ids ev f (nlp_iterations (nlp f) ! iter) dt = Some (Inr tr)" by blast
  have "\<exists>trs. GetTrajectories_loop ids ev f dt iters (acc @ [tr]) = Some (Inr ((acc @ [tr]) @ trs)) \<and>
           length trs = length iters \<and>
           (\<forall>i<length iters.
              BuildTrajectory ids ev f (nlp_iterations (nlp f) ! (iters ! i)) dt = Some (Inr (trs ! i)))"
    by (rule Cons.IH) (simp add: Cons.prems)
  then obtain trs where
    run: "GetTrajectories_loop ids ev f dt iters (acc @ [tr]) = Some (Inr ((acc @ [tr]) @ trs))"
    and len: "length trs = length iters"
    and each: "\<forall>i<length iters.
              BuildTrajectory ids ev f (nlp_iterations (nlp f) ! (iters ! i)) dt = Some (Inr (trs ! i))"
    by blast
  have step: "GetTrajectories_loop ids ev f dt (iter # iters) acc = Some (Inr (acc @ tr # trs))"
    using rng by (simp add: GetOptVariables_def at_index_def tr run)
  have len': "length (tr # trs) = length (iter # iters)" using len by simp
  have each': "\<forall>i<length (iter # iters).
      BuildTrajectory ids ev f (nlp_iterations (nlp f) ! ((iter # iters) ! i)) dt =
        Some (Inr ((tr # trs) ! i))"
  proof (intro allI impI)
    fix i assume "i < length (iter # iters)"
    then show "BuildTrajectory ids ev f (nlp_iterations (nlp f) ! ((iter # iters) ! i)) dt =
        Some (Inr ((tr # trs) ! i))"
      using tr each by (cases i) simp_all
  qed
  from step len' each' show ?case by (intro exI[where x = "tr # trs"] conjI)
qed

lemma readable_cong:
  assumes "\<And>name. name \<in> set (read_ids ids f) \<Longrightarrow>
             GetComponent vars name = GetComponent vars' name"
  shows "readable ids f vars = readable ids f vars'"
proof -
  have e0: "GetComponent_ContactSchedule vars (GetEEScheduleId ids E0) =
      GetComponent_ContactSchedule vars' (GetEEScheduleId ids E0)"
    by (rule GetComponent_lookups_cong) (simp add: assms read_ids_def)
  have l: "GetComponent_Spline vars (base_linear ids) = GetComponent_Spline vars' (base_linear ids)"
    by (rule GetComponent_lookups_cong) (simp add: assms read_ids_def)
  have a: "GetComponent_Spline vars (base_angular ids) = GetComponent_Spline vars' (base_angular ids)"
    by (rule GetComponent_lookups_cong) (simp add: assms read_ids_def)
  have limb: "GetComponent_ContactSchedule vars (GetEEScheduleId ids ee) =
        GetComponent_ContactSchedule vars' (GetEEScheduleId ids ee) \<and>
      GetComponent_Spline vars (GetEEXYMotionId ids ee) =
        GetComponent_Spline vars' (GetEEXYMotionId ids ee) \<and>
      GetComponent_Spline vars (GetEEForceId ids ee) =
        GetComponent_Spline vars' (GetEEForceId ids ee)"
    if "ee \<in> set (GetEEsOrdered (GetEECount (model f)))" for ee
    using that by (intro conjI GetComponent_lookups_cong assms) (auto simp: read_ids_def)
  have "list_all (\<lambda>ee. \<not> isl (GetComponent_ContactSchedule vars (GetEEScheduleId ids ee)) \<and>
                     \<not> isl (GetComponent_Spline vars (GetEEXYMotionId ids ee)) \<and>
                     \<not> isl (GetComponent_Spline vars (GetEEForceId ids ee)))
       (GetEEsOrdered (GetEECount (model f))) =
     list_all (\<lambda>ee. \<not> isl (GetComponent_ContactSchedule vars' (GetEEScheduleId ids ee)) \<and>
                     \<not> isl (GetComponent_Spline vars' (GetEEXYMotionId ids ee)) \<and>
                     \<not> isl (GetComponent_Spline vars' (GetEEForceId ids ee)))
       (GetEEsOrdered (GetEECount (model f)))"
    using limb by (simp add: list_all_iff)
  then show ?thesis
    by (simp only: readable_def e0 l a)
qed

lemma example_readable_z: "readable example_ids example_facade example_vars_z"
proof -
  have "readable example_ids example_facade example_vars =
      readable example_ids example_facade example_vars_z"
  proof (rule readable_cong)
    fix name assume "name \<in> set (read_ids example_ids example_facade)"
    with example_ids_apart have "name \<notin> set (z_motion_ids example_ids example_facade)" by auto
    with example_differ_only_in_z
    show "GetComponent example_vars name = GetComponent example_vars_z name"
      by (rule GetComponent_differ_only_in_z)
  qed
  with example_readable show ?thesis by simp
qed

lemma readable_example_solved:
  "readable example_ids example_solved vars = readable example_ids example_facade vars"
  by (simp add: readable_def example_solved_def)

text \<open>
  Claim C9. For \<open>dt > 0\<close> and recorded iterates that BuildTrajectory can read,
  \<open>GetTrajectories dt\<close> returns one trajectory per recorded iterate, in iteration order: as
  many as \<open>GetIterationCount\<close>, the one at index \<open>iter\<close> being what BuildTrajectory builds
  with the same \<open>dt\<close> from the variables of iterate \<open>iter\<close>.
\<close>

theorem GetTrajectories_one_per_iterate:
  assumes "0 < dt"
    and "\<forall>vars \<in> set (nlp_iterations (nlp f)). readable ids f vars"
  shows "\<exists>trajectories.
           GetTrajectories ids ev f dt = Some (Inr trajectories) \<and>
           length trajectories = GetIterationCount (nlp f) \<and>
           (\<forall>iter<GetIterationCount (nlp f).
              \<exists>opt_var. GetOptVariables (nlp f) iter = Inr opt_var \<and>
                BuildTrajectory ids ev f opt_var dt = Some (Inr (trajectories ! iter)))"
proof -
  let ?n = "GetIterationCount (nlp f)"
  have "\<exists>trs. GetTrajectories_loop ids ev f dt [0..<?n] [] = Some (Inr ([] @ trs)) \<and>
           length trs = length [0..<?n] \<and>
           (\<forall>i<length [0..<?n].
              BuildTrajectory ids ev f (nlp_iterations (nlp f) ! ([0..<?n] ! i)) dt = Some (Inr (trs ! i)))"
  proof (rule GetTrajectories_loop_returns[OF assms(1)])
    fix iter assume "iter \<in> set [0..<?n]"
    then have "iter < length (nlp_iterations (nlp f))" by (simp add: GetIterationCount_def)
    with assms(2) show "iter < length (nlp_iterations (nlp f)) \<and>
        readable ids f (nlp_iterations (nlp f) ! iter)" by simp
  qed
  then obtain trs where
    run: "GetTrajectories ids ev f dt = Some (Inr trs)"
    and len: "length trs = ?n"
    and each: "\<forall>i<?n. BuildTrajectory ids ev f (nlp_iterations (nlp f) ! i) dt = Some (Inr (trs ! i))"
    by (auto simp: GetTrajectories_def)
  have each': "\<forall>iter<?n. \<exists>opt_var. GetOptVariables (nlp f) iter = Inr opt_var \<and>
                BuildTrajectory ids ev f opt_var dt = Some (Inr (trs ! iter))"
    using each by (simp add: GetOptVariables_def at_index_def GetIterationCount_def)
  from run len each' show ?thesis by (intro exI[where x = trs] conjI)
qed

theorem GetTrajectories_one_per_iterate_witness:
  "(0::real) < 1 / 2 \<and>
   readable example_ids example_solved example_vars \<and>
   readable example_ids example_solved example_vars_z \<and>
   GetIterationCount (nlp example_solved) = 2 \<and>
   (\<exists>trajectories.
      GetTrajectories example_ids example_ev example_solved (1 / 2) = Some (Inr trajectories) \<and>
      length trajectories = 2 \<and>
      BuildTrajectory example_ids example_ev example_solved example_vars (1 / 2) =
        Some (Inr (trajectories ! 0)) \<and>
      BuildTrajectory example_ids example_ev example_solved example_vars_z (1 / 2) =
        Some (Inr (trajectories ! 1)))"
proof -
  have dt: "(0::real) < 1 / 2" by simp
  have r1: "readable example_ids example_solved example_vars"
    by (simp only: readable_example_solved example_readable)
  have r2: "readable example_ids example_solved example_vars_z"
    by (simp only: readable_example_solved example_readable_z)
  have its: "nlp_iterations (nlp example_solved) = [example_vars, example_vars_z]"
    by (simp add: example_solved_def)
  have cnt: "GetIterationCount (nlp example_solved) = 2"
    by (simp add: GetIterationCount_def its)
  have rd: "\<forall>vars \<in> set (nlp_iterations (nlp example_solved)). readable example_ids example_solved vars"
    using r1 r2 by (simp add: its)
  from GetTrajectories_one_per_iterate[OF dt rd, of example_ev]
  obtain trajectories where
    run: "GetTrajectories example_ids example_ev example_solved (1 / 2) = Some (Inr trajectories)"
    and len: "length trajectories = 2"
    and each: "\<forall>iter<2. \<exists>opt_var. GetOptVariables (nlp example_solved) iter = Inr opt_var \<and>
        BuildTrajectory example_ids example_ev example_solved opt_var (1 / 2) =
          Some (Inr (trajectories ! iter))"
    unfolding cnt by blast
  from each have "\<exists>opt_var. GetOptVariables (nlp example_solved) 0 = Inr opt_var \<and>
        BuildTrajectory example_ids example_ev example_solved opt_var (1 / 2) =
          Some (Inr (trajectories ! 0))" by simp
  then have t0: "BuildTrajectory example_ids example_ev example_solved example_vars (1 / 2) =
        Some (Inr (trajectories ! 0))"
    by (simp add: GetOptVariables_def at_index_def its)
  from each have "\<exists>opt_var. GetOptVariables (nlp example_solved) 1 = Inr opt_var \<and>
        BuildTrajectory example_ids example_ev example_solved opt_var (1 / 2) =
          Some (Inr (trajectories ! 1))" by simp
  then have t1: "BuildTrajectory example_ids example_ev example_solved example_vars_z (1 / 2) =
        Some (Inr (trajectories ! 1))"
    by (simp add: GetOptVariables_def at_index_def its)
  have "\<exists>trajectories.
      GetTrajectories example_ids example_ev example_solved (1 / 2) = Some (Inr trajectories) \<and>
      length trajectories = 2 \<and>
      BuildTrajectory example_ids example_ev example_solved example_vars (1 / 2) =
        Some (Inr (trajectories ! 0)) \<and>
      BuildTrajectory example_ids example_ev example_solved example_vars_z (1 / 2) =
        Some (Inr (trajectories ! 1))"
    using run len t0 t1 by (intro exI[where x = trajectories] conjI)
  with dt r1 r2 cnt show ?thesis by (intro conjI)
qed

subsection \<open>Boundary bounds of the Hermite base representation\<close>

lemma Hermite_spline_bounds:
  assumes "base_linear ids \<noteq> base_angular ids"
  shows "nv_bounds (SetBaseRepresentationHermite_spline ids timings (base_linear ids, init, final)) =
           [\<lparr>node_selector = FirstNode, value_kind = kPos, dimensions = [X, Y, Z], bound_vector = st_p init\<rparr>,
            \<lparr>node_selector = FirstNode, value_kind = kVel, dimensions = [X, Y, Z], bound_vector = st_v init\<rparr>,
            \<lparr>node_selector = LastNode, value_kind = kVel, dimensions = [X, Y, Z], bound_vector = st_v final\<rparr>,
            \<lparr>node_selector = LastNode, value_kind = kPos, dimensions = [X, Y], bound_vector = st_p final\<rparr>]"
    and "nv_bounds (SetBaseRepresentationHermite_spline ids timings (base_angular ids, init, final)) =
           [\<lparr>node_selector = FirstNode, value_kind = kPos, dimensions = [X, Y, Z], bound_vector = st_p init\<rparr>,
            \<lparr>node_selector = FirstNode, value_kind = kVel, dimensions = [X, Y, Z], bound_vector = st_v init\<rparr>,
            \<lparr>node_selector = LastNode, value_kind = kVel, dimensions = [X, Y, Z], bound_vector = st_v final\<rparr>,
            \<lparr>node_selector = LastNode, value_kind = kPos, dimensions = [Z], bound_vector = st_p final\<rparr>]"
  using assms
  by (simp_all add: SetBaseRepresentationHermite_spline_def Let_def new_NodeValues_def
      InitializeVariables_def AddStartBound_def AddFinalBound_def)

lemma Hermite_spline_name:
  "nv_name (SetBaseRepresentationHermite_spline ids timings (name, init, final)) = name"
  by (simp add: SetBaseRepresentationHermite_spline_def Let_def new_NodeValues_def
      InitializeVariables_def AddStartBound_def AddFinalBound_def)

lemma Hermite_components:
  "components (SetBaseRepresentationHermite ids f opt_variables) =
     components opt_variables @
     [(NodeValuesC (SetBaseRepresentationHermite_spline ids (GetBasePolyDurations (params f))
          (base_linear ids, lin (inital_base f), lin (final_base f))), True),
      (NodeValuesC (SetBaseRepresentationHermite_spline ids (GetBasePolyDurations (params f))
          (base_angular ids, ang (inital_base f), ang (final_base f))), True)]"
  by (simp add: SetBaseRepresentationHermite_def Let_def AddComponent_def)

lemma axis_cases: "axis = X \<or> axis = Y \<or> axis = Z"
  by (cases axis) simp_all

text \<open>
  Claim C4. With distinct identifiers for the linear and the angular base spline,
  \<open>SetBaseRepresentationHermite\<close> adds exactly these two splines, and each gets four bounds:
  start position, start velocity and final velocity on \<open>X, Y, Z\<close>, and the final position on
  \<open>X, Y\<close> for the linear spline, on \<open>Z\<close> (yaw) for the angular one. So at the start every axis of
  position and velocity is bounded, at the end every axis of the velocity, and of the final
  position only \<open>X, Y\<close> (linear) and only \<open>Z\<close> (angular).
\<close>

theorem SetBaseRepresentationHermite_bounds:
  assumes "base_linear ids \<noteq> base_angular ids"
  shows "\<exists>linear angular.
           components (SetBaseRepresentationHermite ids f opt_variables) =
             components opt_variables @ [(NodeValuesC linear, True), (NodeValuesC angular, True)] \<and>
           nv_name linear = base_linear ids \<and> nv_name angular = base_angular ids \<and>
           nv_bounds linear =
             [\<lparr>node_selector = FirstNode, value_kind = kPos, dimensions = [X, Y, Z],
               bound_vector = st_p (lin (inital_base f))\<rparr>,
              \<lparr>node_selector = FirstNode, value_kind = kVel, dimensions = [X, Y, Z],
               bound_vector = st_v (lin (inital_base f))\<rparr>,
              \<lparr>node_selector = LastNode, value_kind = kVel, dimensions = [X, Y, Z],
               bound_vector = st_v (lin (final_base f))\<rparr>,
              \<lparr>node_selector = LastNode, value_kind = kPos, dimensions = [X, Y],
               bound_vector = st_p (lin (final_base f))\<rparr>] \<and>
           nv_bounds angular =
             [\<lparr>node_selector = FirstNode, value_kind = kPos, dimensions = [X, Y, Z],
               bound_vector = st_p (ang (inital_base f))\<rparr>,
              \<lparr>node_selector = FirstNode, value_kind = kVel, dimensions = [X, Y, Z],
               bound_vector = st_v (ang (inital_base f))\<rparr>,
              \<lparr>node_selector = LastNode, value_kind = kVel, dimensions = [X, Y, Z],
               bound_vector = st_v (ang (final_base f))\<rparr>,
              \<lparr>node_selector = LastNode, value_kind = kPos, dimensions = [Z],
               bound_vector = st_p (ang (final_base f))\<rparr>] \<and>
           (\<forall>axis. is_bounded linear FirstNode kPos axis \<and> is_bounded linear FirstNode kVel axis \<and>
                   is_bounded linear LastNode kVel axis \<and>
                   is_bounded angular FirstNode kPos axis \<and> is_bounded angular FirstNode kVel axis \<and>
                   is_bounded angular LastNode kVel axis \<and>
                   (is_bounded linear LastNode kPos axis \<longleftrightarrow> axis = X \<or> axis = Y) \<and>
                   (is_bounded angular LastNode kPos axis \<longleftrightarrow> axis = Z))"
proof -
  let ?t = "GetBasePolyDurations (params f)"
  let ?l = "SetBaseRepresentationHermite_spline ids ?t
              (base_linear ids, lin (inital_base f), lin (final_base f))"
  let ?a = "SetBaseRepresentationHermite_spline ids ?t
              (base_angular ids, ang (inital_base f), ang (final_base f))"
  note bl = Hermite_spline_bounds(1)[OF assms, of ?t "lin (inital_base f)" "lin (final_base f)"]
  note ba = Hermite_spline_bounds(2)[OF assms, of ?t "ang (inital_base f)" "ang (final_base f)"]
  have axes: "\<forall>axis. is_bounded ?l FirstNode kPos axis \<and> is_bounded ?l FirstNode kVel axis \<and>
                   is_bounded ?l LastNode kVel axis \<and>
                   is_bounded ?a FirstNode kPos axis \<and> is_bounded ?a FirstNode kVel axis \<and>
                   is_bounded ?a LastNode kVel axis \<and>
                   (is_bounded ?l LastNode kPos axis \<longleftrightarrow> axis = X \<or> axis = Y) \<and>
                   (is_bounded ?a LastNode kPos axis \<longleftrightarrow> axis = Z)"
  proof
    fix axis
    show "is_bounded ?l FirstNode kPos axis \<and> is_bounded ?l FirstNode kVel axis \<and>
                   is_bounded ?l LastNode kVel axis \<and>
                   is_bounded ?a FirstNode kPos axis \<and> is_bounded ?a FirstNode kVel axis \<and>
                   is_bounded ?a LastNode kVel axis \<and>
                   (is_bounded ?l LastNode kPos axis \<longleftrightarrow> axis = X \<or> axis = Y) \<and>
                   (is_bounded ?a LastNode kPos axis \<longleftrightarrow> axis = Z)"
      using axis_cases[of axis] by (auto simp: is_bounded_def bl ba)
  qed
  from Hermite_components[of ids f opt_variables] Hermite_spline_name[of ids ?t] bl ba axes
  show ?thesis
    by (intro exI[where x = "?l"] exI[where x = "?a"] conjI) simp_all
qed

theorem SetBaseRepresentationHermite_bounds_witness:
  "base_linear example_ids \<noteq> base_angular example_ids \<and>
   (\<exists>linear angular.
      components (SetBaseRepresentationHermite example_ids example_facade
                    (new_Composite ''nlp_variables'' True)) =
        [(NodeValuesC linear, True), (NodeValuesC angular, True)] \<and>
      map dimensions (nv_bounds linear) = [[X, Y, Z], [X, Y, Z], [X, Y, Z], [X, Y]] \<and>
      map dimensions (nv_bounds angular) = [[X, Y, Z], [X, Y, Z], [X, Y, Z], [Z]] \<and>
      \<not> is_bounded linear LastNode kPos Z \<and>
      \<not> is_bounded angular LastNode kPos X \<and> \<not> is_bounded angular LastNode kPos Y)"
proof -
  have ne: "base_linear example_ids \<noteq> base_angular example_ids"
    by (simp add: example_ids_def)
  from SetBaseRepresentationHermite_bounds[OF ne, of example_facade "new_Composite ''nlp_variables'' True"]
  obtain linear angular where
    c: "components (SetBaseRepresentationHermite example_ids example_facade
                    (new_Composite ''nlp_variables'' True)) =
        components (new_Composite ''nlp_variables'' True) @
          [(NodeValuesC linear, True), (NodeValuesC angular, True)]"
    and bl: "map dimensions (nv_bounds linear) = [[X, Y, Z], [X, Y, Z], [X, Y, Z], [X, Y]]"
    and ba: "map dimensions (nv_bounds angular) = [[X, Y, Z], [X, Y, Z], [X, Y, Z], [Z]]"
    and ax: "\<forall>axis. (is_bounded linear LastNode kPos axis \<longleftrightarrow> axis = X \<or> axis = Y) \<and>
                   (is_bounded angular LastNode kPos axis \<longleftrightarrow> axis = Z)"
    by auto
  from c have c': "components (SetBaseRepresentationHermite example_ids example_facade
                    (new_Composite ''nlp_variables'' True)) =
        [(NodeValuesC linear, True), (NodeValuesC angular, True)]"
    by (simp add: new_Composite_def)
  from ax have n1: "\<not> is_bounded linear LastNode kPos Z"
    and n2: "\<not> is_bounded angular LastNode kPos X" and n3: "\<not> is_bounded angular LastNode kPos Y"
    by simp_all
  have "\<exists>linear angular.
      components (SetBaseRepresentationHermite example_ids example_facade
                    (new_Composite ''nlp_variables'' True)) =
        [(NodeValuesC linear, True), (NodeValuesC angular, True)] \<and>
      map dimensions (nv_bounds linear) = [[X, Y, Z], [X, Y, Z], [X, Y, Z], [X, Y]] \<and>
      map dimensions (nv_bounds angular) = [[X, Y, Z], [X, Y, Z], [X, Y, Z], [Z]] \<and>
      \<not> is_bounded linear LastNode kPos Z \<and>
      \<not> is_bounded angular LastNode kPos X \<and> \<not> is_bounded angular LastNode kPos Y"
    using c' bl ba n1 n2 n3 by (intro exI[where x = linear] exI[where x = angular] conjI)
  with ne show ?thesis by (intro conjI)
qed

subsection \<open>Unrecognized kinds\<close>

lemma example_BuildVariables:
  "BuildVariables example_ids example_facade =
     Inr \<lparr>comp_name = ''nlp_variables'', append_components = True,
          components = components example_vars\<rparr>"
  by (simp add: example_vars_components) (simp add: example_defs)



subsection \<open>The blocks BuildVariables adds\<close>

lemma summary_AddComponent:
  "map entry_summary (components (AddComponent b v c)) =
     map entry_summary (components c) @ [(block_kind b, GetName b, v)]"
  by (simp add: AddComponent_def entry_summary_def)

lemma entry_summary_observe:
  "entry_summary (observe ee obs (fst e), snd e) = entry_summary e"
  by (cases "fst e") (simp_all add: entry_summary_def AddObserver_def)

lemma summary_AddObserver_at:
  "map entry_summary (components (fst (AddObserver_at ee obs st))) =
     map entry_summary (components (fst st))"
  by (cases st) (simp add: o_def entry_summary_observe)

lemma length_AddObserver_at:
  "length (snd (AddObserver_at ee obs st)) = length (snd st)"
  by (cases st) simp

lemma BuildVariables_schedule_step:
  assumes "length (snd st) = ee" and "ee < length (contact_timings (params f))"
  shows "\<exists>st'. BuildVariables_schedule ids f ee st = Inr st' \<and>
           length (snd st') = Suc ee \<and>
           map entry_summary (components (fst st')) =
             map entry_summary (components (fst st)) @
               [(ScheduleBlock, GetEEScheduleId ids ee, ConstraintExists (params f) TotalTime)]"
  using assms
  by (cases st)
     (auto simp: at_index_def ebind_def Let_def summary_AddComponent new_ContactSchedule_def
        nth_append)

lemma BuildVariables_schedule_loop:
  assumes "length (snd st) = k" and "k \<le> n" and "n \<le> length (contact_timings (params f))"
  shows "\<exists>st'. for_each (BuildVariables_schedule ids f) [k..<n] st = Inr st' \<and>
           length (snd st') = n \<and>
           map entry_summary (components (fst st')) =
             map entry_summary (components (fst st)) @
               map (\<lambda>ee. (ScheduleBlock, GetEEScheduleId ids ee, ConstraintExists (params f) TotalTime))
                 [k..<n]"
  using assms
proof (induction "n - k" arbitrary: k st)
  case 0
  then show ?case by simp
next
  case (Suc d)
  then have kn: "k < n" by simp
  with Suc.prems have "k < length (contact_timings (params f))" by simp
  from BuildVariables_schedule_step[OF Suc.prems(1) this, of ids]
  obtain st1 where
    step: "BuildVariables_schedule ids f k st = Inr st1"
    and len1: "length (snd st1) = Suc k"
    and sum1: "map entry_summary (components (fst st1)) =
             map entry_summary (components (fst st)) @
               [(ScheduleBlock, GetEEScheduleId ids k, ConstraintExists (params f) TotalTime)]"
    by blast
  have d: "d = n - Suc k" using Suc.hyps(2) by simp
  have "\<exists>st'. for_each (BuildVariables_schedule ids f) [Suc k..<n] st1 = Inr st' \<and>
           length (snd st') = n \<and>
           map entry_summary (components (fst st')) =
             map entry_summary (components (fst st1)) @
               map (\<lambda>ee. (ScheduleBlock, GetEEScheduleId ids ee, ConstraintExists (params f) TotalTime))
                 [Suc k..<n]"
    using kn Suc.prems(3) by (intro Suc.hyps(1)[OF d len1]) simp_all
  then obtain st2 where
    rest: "for_each (BuildVariables_schedule ids f) [Suc k..<n] st1 = Inr st2"
    and len2: "length (snd st2) = n"
    and sum2: "map entry_summary (components (fst st2)) =
             map entry_summary (components (fst st1)) @
               map (\<lambda>ee. (ScheduleBlock, GetEEScheduleId ids ee, ConstraintExists (params f) TotalTime))
                 [Suc k..<n]"
    by blast
  have run: "for_each (BuildVariables_schedule ids f) [k..<n] st = Inr st2"
    using kn by (simp add: upt_conv_Cons step rest ebind_def)
  have sum: "map entry_summary (components (fst st2)) =
             map entry_summary (components (fst st)) @
               map (\<lambda>ee. (ScheduleBlock, GetEEScheduleId ids ee, ConstraintExists (params f) TotalTime))
                 [k..<n]"
    using kn by (simp add: upt_conv_Cons sum1 sum2)
  from run len2 sum show ?case by (intro exI[where x = st2] conjI)
qed

lemma BuildVariables_motion_step:
  assumes "ee < length (snd st)" and "ee < length (GetNominalStanceInBase (model f))"
    and "ee < length (initial_ee_W f)"
  shows "\<exists>st'. BuildVariables_motion ids f ee st = Inr st' \<and>
           length (snd st') = length (snd st) \<and>
           map entry_summary (components (fst st')) =
             map entry_summary (components (fst st)) @
               [(MotionBlock, GetEEXYMotionId ids ee, True), (MotionBlock, GetEEZMotionId ids ee, True)]"
  using assms
  by (cases st)
     (simp add: at_index_def ebind_def Let_def summary_AddComponent summary_AddObserver_at
        length_AddObserver_at new_NodeValues_def InitializeVariables_def AddStartBound_def
        del: AddObserver_at.simps)

lemma BuildVariables_force_step:
  assumes "ee < length (snd st)"
  shows "\<exists>st'. BuildVariables_force ids f ee st = Inr st' \<and>
           length (snd st') = length (snd st) \<and>
           map entry_summary (components (fst st')) =
             map entry_summary (components (fst st)) @ [(ForceBlock, GetEEForceId ids ee, True)]"
  using assms
  by (cases st)
     (simp add: at_index_def ebind_def Let_def summary_AddComponent summary_AddObserver_at
        length_AddObserver_at new_NodeValues_def InitializeVariables_def
        del: AddObserver_at.simps)

lemma BuildVariables_motion_loop:
  assumes "\<And>ee. ee \<in> set ees \<Longrightarrow> ee < length (snd st) \<and>
             ee < length (GetNominalStanceInBase (model f)) \<and> ee < length (initial_ee_W f)"
  shows "\<exists>st'. for_each (BuildVariables_motion ids f) ees st = Inr st' \<and>
           length (snd st') = length (snd st) \<and>
           map entry_summary (components (fst st')) =
             map entry_summary (components (fst st)) @
               concat (map (\<lambda>ee. [(MotionBlock, GetEEXYMotionId ids ee, True),
                                    (MotionBlock, GetEEZMotionId ids ee, True)]) ees)"
  using assms
proof (induction ees arbitrary: st)
  case Nil
  show ?case by simp
next
  case (Cons ee ees)
  from Cons.prems[of ee] have "ee < length (snd st)"
    "ee < length (GetNominalStanceInBase (model f))" "ee < length (initial_ee_W f)" by simp_all
  from BuildVariables_motion_step[OF this, of ids]
  obtain st1 where
    step: "BuildVariables_motion ids f ee st = Inr st1"
    and len1: "length (snd st1) = length (snd st)"
    and sum1: "map entry_summary (components (fst st1)) =
             map entry_summary (components (fst st)) @
               [(MotionBlock, GetEEXYMotionId ids ee, True), (MotionBlock, GetEEZMotionId ids ee, True)]"
    by blast
  have "\<exists>st'. for_each (BuildVariables_motion ids f) ees st1 = Inr st' \<and>
           length (snd st') = length (snd st1) \<and>
           map entry_summary (components (fst st')) =
             map entry_summary (components (fst st1)) @
               concat (map (\<lambda>ee. [(MotionBlock, GetEEXYMotionId ids ee, True),
                                    (MotionBlock, GetEEZMotionId ids ee, True)]) ees)"
    by (rule Cons.IH) (simp add: Cons.prems len1)
  then obtain st2 where
    rest: "for_each (BuildVariables_motion ids f) ees st1 = Inr st2"
    and len2: "length (snd st2) = length (snd st1)"
    and sum2: "map entry_summary (components (fst st2)) =
             map entry_summary (components (fst st1)) @
               concat (map (\<lambda>ee. [(MotionBlock, GetEEXYMotionId ids ee, True),
                                    (MotionBlock, GetEEZMotionId ids ee, True)]) ees)"
    by blast
  have run: "for_each (BuildVariables_motion ids f) (ee # ees) st = Inr st2"
    by (simp add: step rest ebind_def)
  have len: "length (snd st2) = length (snd st)" by (simp only: len2 len1)
  have sum: "map entry_summary (components (fst st2)) =
             map entry_summary (components (fst st)) @
               concat (map (\<lambda>ee. [(MotionBlock, GetEEXYMotionId ids ee, True),
                                    (MotionBlock, GetEEZMotionId ids ee, True)]) (ee # ees))"
    by (simp add: sum1 sum2)
  from run len sum show ?case by (intro exI[where x = st2] conjI)
qed

lemma BuildVariables_force_loop:
  assumes "\<And>ee. ee \<in> set ees \<Longrightarrow> ee < length (snd st)"
  shows "\<exists>st'. for_each (BuildVariables_force ids f) ees st = Inr st' \<and>
           length (snd st') = length (snd st) \<and>
           map entry_summary (components (fst st')) =
             map entry_summary (components (fst st)) @
               map (\<lambda>ee. (ForceBlock, GetEEForceId ids ee, True)) ees"
  using assms
proof (induction ees arbitrary: st)
  case Nil
  show ?case by simp
next
  case (Cons ee ees)
  from Cons.prems[of ee] have "ee < length (snd st)" by simp
  from BuildVariables_force_step[OF this, of ids f]
  obtain st1 where
    step: "BuildVariables_force ids f ee st = Inr st1"
    and len1: "length (snd st1) = length (snd st)"
    and sum1: "map entry_summary (components (fst st1)) =
             map entry_summary (components (fst st)) @ [(ForceBlock, GetEEForceId ids ee, True)]"
    by blast
  have "\<exists>st'. for_each (BuildVariables_force ids f) ees st1 = Inr st' \<and>
           length (snd st') = length (snd st1) \<and>
           map entry_summary (components (fst st')) =
             map entry_summary (components (fst st1)) @
               map (\<lambda>ee. (ForceBlock, GetEEForceId ids ee, True)) ees"
    by (rule Cons.IH) (simp add: Cons.prems len1)
  then obtain st2 where
    rest: "for_each (BuildVariables_force ids f) ees st1 = Inr st2"
    and len2: "length (snd st2) = length (snd st1)"
    and sum2: "map entry_summary (components (fst st2)) =
             map entry_summary (components (fst st1)) @
               map (\<lambda>ee. (ForceBlock, GetEEForceId ids ee, True)) ees"
    by blast
  have run: "for_each (BuildVariables_force ids f) (ee # ees) st = Inr st2"
    by (simp add: step rest ebind_def)
  have len: "length (snd st2) = length (snd st)" by (simp only: len2 len1)
  have sum: "map entry_summary (components (fst st2)) =
             map entry_summary (components (fst st)) @
               map (\<lambda>ee. (ForceBlock, GetEEForceId ids ee, True)) (ee # ees)"
    by (simp add: sum1 sum2)
  from run len sum show ?case by (intro exI[where x = st2] conjI)
qed

lemma Hermite_summary:
  "map entry_summary (components (SetBaseRepresentationHermite ids f vars)) =
     map entry_summary (components vars) @
       [(BaseBlock, base_linear ids, True), (BaseBlock, base_angular ids, True)]"
  by (simp add: Hermite_components entry_summary_def Hermite_spline_name)
     (simp add: SetBaseRepresentationHermite_spline_def Let_def new_NodeValues_def
        InitializeVariables_def AddStartBound_def AddFinalBound_def)

lemma Coeff_fold_kinds:
  assumes "list_all base_kind (map entry_summary (components (fst st)))"
  shows "list_all base_kind (map entry_summary (components (fst
           (fold (\<lambda>i st.
                  let var = \<lparr>pv_name = name @ to_string i, pv_order = order, pv_n_dim = n_dim,
                                pv_assigned = None\<rparr>
                  in (AddComponent (PolynomialVarsC var) True (fst st),
                      (snd st)\<lparr>poly_vars := poly_vars (snd st) @ [pv_name var]\<rparr>)) is st))))"
  using assms
  by (induction "is" arbitrary: st)
     (simp_all add: Let_def summary_AddComponent base_kind_def)

lemma Coeff_spline_kinds:
  assumes "list_all base_kind (map entry_summary (components vars))"
  shows "list_all base_kind
           (map entry_summary (components (SetBaseRepresentationCoeff_spline f name a b vars)))"
proof -
  have "list_all base_kind (map entry_summary (components (fst (vars, c))))" for c :: CoeffSpline
    using assms by simp
  from Coeff_fold_kinds[OF this] show ?thesis
    by (simp add: SetBaseRepresentationCoeff_spline_def Let_def summary_AddComponent base_kind_def)
qed

lemma base_representation_kinds:
  "list_all base_kind (map entry_summary (components
     (SetBaseRepresentationHermite ids f (ClearComponents (new_Composite name app)))))"
  "list_all base_kind (map entry_summary (components
     (SetBaseRepresentationCoeff ids f (ClearComponents (new_Composite name app)))))"
  by (simp_all add: Hermite_summary SetBaseRepresentationCoeff_def Coeff_spline_kinds
      ClearComponents_def new_Composite_def base_kind_def)

lemma BuildVariables_summary:
  assumes "well_configured f"
  shows "\<exists>vars bs. BuildVariables ids f = Inr vars \<and>
           list_all base_kind bs \<and>
           map entry_summary (components vars) =
             bs @
             map (\<lambda>ee. (ScheduleBlock, GetEEScheduleId ids ee, ConstraintExists (params f) TotalTime))
               (GetEEIDs (model f)) @
             concat (map (\<lambda>ee. [(MotionBlock, GetEEXYMotionId ids ee, True),
                                  (MotionBlock, GetEEZMotionId ids ee, True)]) (GetEEIDs (model f))) @
             map (\<lambda>ee. (ForceBlock, GetEEForceId ids ee, True)) (GetEEIDs (model f))"
proof -
  let ?n = "GetEECount (model f)"
  let ?c0 = "ClearComponents (new_Composite ''nlp_variables'' True)"
  from assms have n1: "?n \<le> length (contact_timings (params f))"
    and n2: "?n \<le> length (GetNominalStanceInBase (model f))"
    and n3: "?n \<le> length (initial_ee_W f)"
    by (simp_all add: well_configured_def)
  from assms obtain c1 where
    rep: "(case GetBaseRepresentation (params f) of
               CubicHermite \<Rightarrow> Inr (SetBaseRepresentationHermite ids f ?c0)
             | PolyCoeff \<Rightarrow> Inr (SetBaseRepresentationCoeff ids f ?c0)
             | UnknownRepresentation k \<Rightarrow> Inl AssertionFailed) = Inr c1"
    and base: "list_all base_kind (map entry_summary (components c1))"
    using base_representation_kinds[of ids f "''nlp_variables''" True]
    by (auto simp: well_configured_def)
  from BuildVariables_schedule_loop[of "(c1, [])" 0 ?n f ids] n1
  obtain st1 where
    l1: "for_each (BuildVariables_schedule ids f) [0..<?n] (c1, []) = Inr st1"
    and len1: "length (snd st1) = ?n"
    and s1: "map entry_summary (components (fst st1)) =
             map entry_summary (components c1) @
               map (\<lambda>ee. (ScheduleBlock, GetEEScheduleId ids ee, ConstraintExists (params f) TotalTime))
                 [0..<?n]"
    by auto
  have "\<exists>st'. for_each (BuildVariables_motion ids f) [0..<?n] st1 = Inr st' \<and>
           length (snd st') = length (snd st1) \<and>
           map entry_summary (components (fst st')) =
             map entry_summary (components (fst st1)) @
               concat (map (\<lambda>ee. [(MotionBlock, GetEEXYMotionId ids ee, True),
                                    (MotionBlock, GetEEZMotionId ids ee, True)]) [0..<?n])"
    by (rule BuildVariables_motion_loop) (use len1 n2 n3 in simp)
  then obtain st2 where
    l2: "for_each (BuildVariables_motion ids f) [0..<?n] st1 = Inr st2"
    and len2: "length (snd st2) = length (snd st1)"
    and s2: "map entry_summary (components (fst st2)) =
             map entry_summary (components (fst st1)) @
               concat (map (\<lambda>ee. [(MotionBlock, GetEEXYMotionId ids ee, True),
                                    (MotionBlock, GetEEZMotionId ids ee, True)]) [0..<?n])"
    by blast
  have "\<exists>st'. for_each (BuildVariables_force ids f) [0..<?n] st2 = Inr st' \<and>
           length (snd st') = length (snd st2) \<and>
           map entry_summary (components (fst st')) =
             map entry_summary (components (fst st2)) @
               map (\<lambda>ee. (ForceBlock, GetEEForceId ids ee, True)) [0..<?n]"
    by (rule BuildVariables_force_loop) (use len1 len2 in simp)
  then obtain st3 where
    l3: "for_each (BuildVariables_force ids f) [0..<?n] st2 = Inr st3"
    and s3: "map entry_summary (components (fst st3)) =
             map entry_summary (components (fst st2)) @
               map (\<lambda>ee. (ForceBlock, GetEEForceId ids ee, True)) [0..<?n]"
    by blast
  have run: "BuildVariables ids f = Inr (fst st3)"
    by (simp add: BuildVariables_def Let_def rep GetEEIDs_def l1 l2 l3 ebind_def)
  have sum: "map entry_summary (components (fst st3)) =
             map entry_summary (components c1) @
             map (\<lambda>ee. (ScheduleBlock, GetEEScheduleId ids ee, ConstraintExists (params f) TotalTime))
               (GetEEIDs (model f)) @
             concat (map (\<lambda>ee. [(MotionBlock, GetEEXYMotionId ids ee, True),
                                  (MotionBlock, GetEEZMotionId ids ee, True)]) (GetEEIDs (model f))) @
             map (\<lambda>ee. (ForceBlock, GetEEForceId ids ee, True)) (GetEEIDs (model f))"
    by (simp only: s3 s2 s1 GetEEIDs_def append_assoc)
  from run base sum show ?thesis
    by (intro exI[where x = "fst st3"] exI[where x = "map entry_summary (components c1)"] conjI)
qed

lemma filter_base_kind:
  assumes "list_all base_kind bs" and "k = ScheduleBlock \<or> k = MotionBlock \<or> k = ForceBlock"
  shows "filter (\<lambda>s. fst s = k) bs = []"
  using assms by (auto simp: filter_empty_conv list_all_iff base_kind_def)

lemma BuildVariables_blocks:
  assumes "well_configured f"
  shows "\<exists>vars. BuildVariables ids f = Inr vars \<and>
           blocks_of ScheduleBlock vars =
             map (\<lambda>ee. (GetEEScheduleId ids ee, ConstraintExists (params f) TotalTime))
               (GetEEIDs (model f)) \<and>
           blocks_of MotionBlock vars =
             concat (map (\<lambda>ee. [(GetEEXYMotionId ids ee, True), (GetEEZMotionId ids ee, True)])
                       (GetEEIDs (model f))) \<and>
           blocks_of ForceBlock vars = map (\<lambda>ee. (GetEEForceId ids ee, True)) (GetEEIDs (model f))"
proof -
  from BuildVariables_summary[OF assms, of ids] obtain vars bs where
    run: "BuildVariables ids f = Inr vars"
    and base: "list_all base_kind bs"
    and sum: "map entry_summary (components vars) =
             bs @
             map (\<lambda>ee. (ScheduleBlock, GetEEScheduleId ids ee, ConstraintExists (params f) TotalTime))
               (GetEEIDs (model f)) @
             concat (map (\<lambda>ee. [(MotionBlock, GetEEXYMotionId ids ee, True),
                                  (MotionBlock, GetEEZMotionId ids ee, True)]) (GetEEIDs (model f))) @
             map (\<lambda>ee. (ForceBlock, GetEEForceId ids ee, True)) (GetEEIDs (model f))"
    by blast
  have s: "blocks_of ScheduleBlock vars =
             map (\<lambda>ee. (GetEEScheduleId ids ee, ConstraintExists (params f) TotalTime))
               (GetEEIDs (model f))"
    by (simp add: blocks_of_def sum filter_base_kind[OF base] filter_map o_def filter_concat)
  have m: "blocks_of MotionBlock vars =
             concat (map (\<lambda>ee. [(GetEEXYMotionId ids ee, True), (GetEEZMotionId ids ee, True)])
                       (GetEEIDs (model f)))"
    by (simp add: blocks_of_def sum filter_base_kind[OF base] filter_map o_def filter_concat
        map_concat)
  have fo: "blocks_of ForceBlock vars = map (\<lambda>ee. (GetEEForceId ids ee, True)) (GetEEIDs (model f))"
    by (simp add: blocks_of_def sum filter_base_kind[OF base] filter_map o_def filter_concat)
  from run s m fo show ?thesis by (intro exI[where x = vars] conjI)
qed

subsection \<open>The blocks of each limb\<close>

lemma example_well_configured: "well_configured example_facade"
  by (simp add: well_configured_def example_facade_def example_params_def example_model_def)


lemma example_EEIDs:
  "GetEEIDs (model example_facade) = [0, 1]" "GetEEIDs (model example_fixed_timings) = [0, 1]"
  by (simp_all add: GetEEIDs_def example_fixed_timings_def example_facade_def example_model_def
      upt_2)

lemma example_id_values:
  "GetEEScheduleId example_ids 0 = ''contact_schedule_0''"
  "GetEEScheduleId example_ids (Suc 0) = ''contact_schedule_1''"
  "GetEEXYMotionId example_ids 0 = ''ee_motion_xy_0''"
  "GetEEXYMotionId example_ids (Suc 0) = ''ee_motion_xy_1''"
  "GetEEZMotionId example_ids 0 = ''ee_motion_z_0''"
  "GetEEZMotionId example_ids (Suc 0) = ''ee_motion_z_1''"
  "GetEEForceId example_ids 0 = ''ee_force_0''"
  "GetEEForceId example_ids (Suc 0) = ''ee_force_1''"
  by (simp_all add: example_ids_def to_string.simps)




text \<open>
  Claim C5 (amended). BuildVariables adds, for every limb, one schedule block, one force
  block and two motion blocks: one under the limb's XY motion identifier and one under its Z
  motion identifier. BuildTrajectory takes the motion of a limb from the block found under
  the limb's XY motion identifier.
\<close>

theorem BuildVariables_limb_blocks:
  assumes "well_configured f"
  shows "(\<exists>built. BuildVariables ids f = Inr built \<and>
            map fst (blocks_of ScheduleBlock built) = map (GetEEScheduleId ids) (GetEEIDs (model f)) \<and>
            map fst (blocks_of MotionBlock built) =
              concat (map (\<lambda>ee. [GetEEXYMotionId ids ee, GetEEZMotionId ids ee]) (GetEEIDs (model f))) \<and>
            map fst (blocks_of ForceBlock built) = map (GetEEForceId ids) (GetEEIDs (model f)) \<and>
            length (blocks_of MotionBlock built) = 2 * GetEECount (model f)) \<and>
         (\<forall>state ee. BuildTrajectory_state ids ev f vars t = Inr state \<longrightarrow>
            ee < GetEECount (model f) \<longrightarrow>
            (\<exists>b. GetComponent_Spline vars (GetEEXYMotionId ids ee) = Inr b \<and>
                 ee_motion state ! ee = GetPoint ev b t))"
proof -
  from BuildVariables_blocks[OF assms, of ids] obtain built where
    run: "BuildVariables ids f = Inr built"
    and s: "blocks_of ScheduleBlock built =
             map (\<lambda>ee. (GetEEScheduleId ids ee, ConstraintExists (params f) TotalTime))
               (GetEEIDs (model f))"
    and m: "blocks_of MotionBlock built =
             concat (map (\<lambda>ee. [(GetEEXYMotionId ids ee, True), (GetEEZMotionId ids ee, True)])
                       (GetEEIDs (model f)))"
    and fo: "blocks_of ForceBlock built = map (\<lambda>ee. (GetEEForceId ids ee, True)) (GetEEIDs (model f))"
    by blast
  have s': "map fst (blocks_of ScheduleBlock built) = map (GetEEScheduleId ids) (GetEEIDs (model f))"
    by (simp add: s o_def)
  have m': "map fst (blocks_of MotionBlock built) =
              concat (map (\<lambda>ee. [GetEEXYMotionId ids ee, GetEEZMotionId ids ee]) (GetEEIDs (model f)))"
    by (simp add: m map_concat o_def)
  have fo': "map fst (blocks_of ForceBlock built) = map (GetEEForceId ids) (GetEEIDs (model f))"
    by (simp add: fo o_def)
  have len: "length (blocks_of MotionBlock built) = 2 * GetEECount (model f)"
    by (simp add: m length_concat o_def sum_list_triv GetEEIDs_def)
  have first: "\<exists>built. BuildVariables ids f = Inr built \<and>
            map fst (blocks_of ScheduleBlock built) = map (GetEEScheduleId ids) (GetEEIDs (model f)) \<and>
            map fst (blocks_of MotionBlock built) =
              concat (map (\<lambda>ee. [GetEEXYMotionId ids ee, GetEEZMotionId ids ee]) (GetEEIDs (model f))) \<and>
            map fst (blocks_of ForceBlock built) = map (GetEEForceId ids) (GetEEIDs (model f)) \<and>
            length (blocks_of MotionBlock built) = 2 * GetEECount (model f)"
    using run s' m' fo' len by (intro exI[where x = built] conjI)
  have second: "\<forall>state ee. BuildTrajectory_state ids ev f vars t = Inr state \<longrightarrow>
            ee < GetEECount (model f) \<longrightarrow>
            (\<exists>b. GetComponent_Spline vars (GetEEXYMotionId ids ee) = Inr b \<and>
                 ee_motion state ! ee = GetPoint ev b t)"
    using BuildTrajectory_state_motion by blast
  from first second show ?thesis by (rule conjI)
qed

theorem BuildVariables_limb_blocks_witness:
  "well_configured example_facade \<and>
   (\<exists>built. BuildVariables example_ids example_facade = Inr built \<and>
      map fst (blocks_of ScheduleBlock built) = [''contact_schedule_0'', ''contact_schedule_1''] \<and>
      map fst (blocks_of MotionBlock built) =
        [''ee_motion_xy_0'', ''ee_motion_z_0'', ''ee_motion_xy_1'', ''ee_motion_z_1''] \<and>
      map fst (blocks_of ForceBlock built) = [''ee_force_0'', ''ee_force_1'']) \<and>
   (\<exists>state b.
      BuildTrajectory_state example_ids example_ev example_facade example_vars (1 / 2) = Inr state \<and>
      GetComponent_Spline example_vars ''ee_motion_xy_1'' = Inr b \<and>
      ee_motion state ! 1 = GetPoint example_ev b (1 / 2))"
proof -
  note inst = BuildVariables_limb_blocks[OF example_well_configured,
      of example_ids example_ev example_vars "1 / 2"]
  from inst obtain built where
    run: "BuildVariables example_ids example_facade = Inr built"
    and s: "map fst (blocks_of ScheduleBlock built) =
        map (GetEEScheduleId example_ids) (GetEEIDs (model example_facade))"
    and m: "map fst (blocks_of MotionBlock built) =
        concat (map (\<lambda>ee. [GetEEXYMotionId example_ids ee, GetEEZMotionId example_ids ee])
                  (GetEEIDs (model example_facade)))"
    and fo: "map fst (blocks_of ForceBlock built) =
        map (GetEEForceId example_ids) (GetEEIDs (model example_facade))"
    by blast
  from s have s': "map fst (blocks_of ScheduleBlock built) =
      [''contact_schedule_0'', ''contact_schedule_1'']"
    by (simp add: example_EEIDs example_id_values)
  from m have m': "map fst (blocks_of MotionBlock built) =
        [''ee_motion_xy_0'', ''ee_motion_z_0'', ''ee_motion_xy_1'', ''ee_motion_z_1'']"
    by (simp add: example_EEIDs example_id_values)
  from fo have fo': "map fst (blocks_of ForceBlock built) = [''ee_force_0'', ''ee_force_1'']"
    by (simp add: example_EEIDs example_id_values)
  have first: "\<exists>built. BuildVariables example_ids example_facade = Inr built \<and>
      map fst (blocks_of ScheduleBlock built) = [''contact_schedule_0'', ''contact_schedule_1''] \<and>
      map fst (blocks_of MotionBlock built) =
        [''ee_motion_xy_0'', ''ee_motion_z_0'', ''ee_motion_xy_1'', ''ee_motion_z_1''] \<and>
      map fst (blocks_of ForceBlock built) = [''ee_force_0'', ''ee_force_1'']"
    using run s' m' fo' by (intro exI[where x = built] conjI)
  let ?state = "sampled_state example_ids example_ev example_facade example_vars (1 / 2)"
  have st: "BuildTrajectory_state example_ids example_ev example_facade example_vars (1 / 2) =
      Inr ?state"
    by (rule BuildTrajectory_state_readable[OF example_readable])
  have n: "(1::nat) < GetEECount (model example_facade)"
    by (simp add: example_facade_def example_model_def)
  from inst st n have "\<exists>b. GetComponent_Spline example_vars (GetEEXYMotionId example_ids 1) = Inr b \<and>
      ee_motion ?state ! 1 = GetPoint example_ev b (1 / 2)"
    by blast
  then obtain b where
    b: "GetComponent_Spline example_vars ''ee_motion_xy_1'' = Inr b"
    and mo: "ee_motion ?state ! 1 = GetPoint example_ev b (1 / 2)"
    by (auto simp: example_id_values)
  have second: "\<exists>state b.
      BuildTrajectory_state example_ids example_ev example_facade example_vars (1 / 2) = Inr state \<and>
      GetComponent_Spline example_vars ''ee_motion_xy_1'' = Inr b \<and>
      ee_motion state ! 1 = GetPoint example_ev b (1 / 2)"
    using st b mo by (intro exI[where x = "?state"] exI[where x = b] conjI)
  from example_well_configured first second show ?thesis by (intro conjI)
qed

theorem BuildVariables_limb_blocks_counterexample:
  "GetEECount (model example_facade) = 2 \<and>
   map_sum id (blocks_of MotionBlock) (BuildVariables example_ids example_facade) =
     Inr [(''ee_motion_xy_0'', True), (''ee_motion_z_0'', True),
          (''ee_motion_xy_1'', True), (''ee_motion_z_1'', True)] \<and>
   BuildVariables example_ids example_facade =
     Inr \<lparr>comp_name = ''nlp_variables'', append_components = True,
          components = components example_vars\<rparr> \<and>
   \<not> isl (GetComponent_Spline example_vars ''ee_motion_xy_0'') \<and>
   \<not> isl (GetComponent_Spline example_vars ''ee_motion_z_0'')"
proof -
  have n: "GetEECount (model example_facade) = 2"
    by (simp add: example_facade_def example_model_def)
  have m: "map_sum id (blocks_of MotionBlock) (BuildVariables example_ids example_facade) =
     Inr [(''ee_motion_xy_0'', True), (''ee_motion_z_0'', True),
          (''ee_motion_xy_1'', True), (''ee_motion_z_1'', True)]"
    by (simp add: example_BuildVariables blocks_of_def example_vars_components entry_summary_def)
  have xy: "\<not> isl (GetComponent_Spline example_vars ''ee_motion_xy_0'')"
    by (simp add: example_vars_components GetComponent_Spline_def GetComponent_def ebind_def)
  have z: "\<not> isl (GetComponent_Spline example_vars ''ee_motion_z_0'')"
    by (simp add: example_vars_components GetComponent_Spline_def GetComponent_def ebind_def)
  from n m example_BuildVariables xy z show ?thesis by (intro conjI)
qed

end
